theory Spec2Isabelle
  imports Main
begin

section \<open>The chat client of src/client.ts\<close>

text \<open>
  The development embeds the class \<^verbatim>\<open>Client\<close> of \<^verbatim>\<open>src/client.ts\<close>: its constructor, the
  socket handlers, the dispatch of one decoded protocol line and the outbound command
  builders. Every method becomes a function from the client's state to an outcome and the
  state it leaves behind. A JavaScript exception does not undo the writes made before it,
  so a method that throws still returns the state it reached.

  What \<^verbatim>\<open>src/client.ts\<close> does not contain is taken as follows.
  \<^item> The codec \<^verbatim>\<open>tekko\<close> is an external library: \<^verbatim>\<open>tekko.parse\<close> is a parameter of
    \<^verbatim>\<open>handleMessage\<close>, and the dispatch itself is a function of the decoded message.
  \<^item> The classes \<^verbatim>\<open>Channel\<close>, \<^verbatim>\<open>User\<close>, \<^verbatim>\<open>ClientUser\<close>, \<^verbatim>\<open>UserState\<close>, \<^verbatim>\<open>MessageData\<close> and
    \<^verbatim>\<open>ChatMessage\<close> live in files that are not part of the sources. An object is the record
    of the arguments its constructor received, stored at a fresh address of the heap.
  \<^item> Listeners registered on the client, \<^verbatim>\<open>socket.write\<close> and \<^verbatim>\<open>tls.connect\<close> are assumed
    to return; \<^verbatim>\<open>emit\<close> appends to the log of emitted events, \<^verbatim>\<open>write\<close> to the log of
    writes of the socket. The two \<^verbatim>\<open>console.log\<close> calls are left out.
  \<^item> \<^verbatim>\<open>Client\<close> extends Node's \<^verbatim>\<open>EventEmitter\<close>: the client records the event names for which
    \<^verbatim>\<open>on\<close> registered a listener, and \<^verbatim>\<open>emit('error', err)\<close> throws \<^verbatim>\<open>err\<close> when no listener is
    registered for \<^verbatim>\<open>error\<close>.
\<close>

subsection \<open>Values, faults and outcomes\<close>

text \<open>A string-typed field that the code may leave \<^verbatim>\<open>undefined\<close> or set to \<^verbatim>\<open>null\<close>.\<close>

datatype jsval = Undefined | Null | Str string

text \<open>The string a template literal \<^verbatim>\<open>`${v}`\<close> yields.\<close>

fun template :: "jsval \<Rightarrow> string" where
  "template Undefined = ''undefined''"
| "template Null = ''null''"
| "template (Str s) = s"

text \<open>
  \<open>TypeError\<close>: a property read or a method call on \<^verbatim>\<open>null\<close> or \<^verbatim>\<open>undefined\<close>.
  \<open>DecodeFailure\<close>: \<^verbatim>\<open>tekko.parse\<close> threw. \<open>TransportError\<close>: an error the socket reports.
  \<open>BadReference\<close>: the heap holds no object of the expected class at an address; no
  execution of the client produces it (lemmas \<open>reachable_well_formed\<close> and
  \<open>dispatch_no_BadReference\<close> below).
\<close>

datatype js_error = TypeError | DecodeFailure | TransportError string | BadReference

datatype outcome = Returned | Threw js_error

type_synonym tags = "string \<rightharpoonup> string"

record message_prefix =
  prefix_name :: string
  prefix_user :: "string option"
  prefix_host :: "string option"

text \<open>
  The decoded line, with the field \<^verbatim>\<open>raw\<close> that line 200 adds. The prefix is absent on a
  line that has none (line 207 tests for it).
\<close>

record tekko_message =
  raw :: string
  command :: string
  tags :: tags
  prefix :: "message_prefix option"
  params :: "string list"

text \<open>
  Modelled from the spec: \<^verbatim>\<open>MessageData\<close> and \<^verbatim>\<open>ChatMessage\<close> (message.ts is not in the
  sources) are the transient per-message wrappers of section 3 of the specification: they
  hold the fields of the decoded line as decoded. In particular a line without a sender
  prefix has none in its \<^verbatim>\<open>MessageData\<close> either.
\<close>

datatype message_data = MessageData tekko_message

datatype chat_message = ChatMessage message_data

fun decoded :: "message_data \<Rightarrow> tekko_message" where
  "decoded (MessageData m) = m"

subsection \<open>The heap of entity objects\<close>

type_synonym ref = nat

text \<open>
  Modelled from the spec: the classes \<^verbatim>\<open>Channel\<close> (channel.ts), \<^verbatim>\<open>User\<close>, \<^verbatim>\<open>ClientUser\<close> and
  \<^verbatim>\<open>UserState\<close> (user.ts) are not in the sources; section 3 of the specification describes
  them as passive data holders. An object is one constructor application, holding the
  arguments of the call in client.ts (the client argument apart):
  \<^verbatim>\<open>new Channel(this, channelName, tags)\<close>, \<^verbatim>\<open>new User(name, tags, channel)\<close>,
  \<^verbatim>\<open>new ClientUser(this, name, tags)\<close> and \<^verbatim>\<open>new UserState(tags, channel)\<close>. The name given to
  \<^verbatim>\<open>ClientUser\<close> is its \<^verbatim>\<open>login\<close>, which line 236 reads; its third field is the map \<^verbatim>\<open>states\<close>,
  empty in a new object. A key of a JavaScript \<^verbatim>\<open>Map\<close> may be \<^verbatim>\<open>undefined\<close>: keys are
  \<open>string option\<close>.
\<close>

datatype obj =
    Channel "string option" tags
  | User string tags "ref option"
  | ClientUser jsval tags "string option \<rightharpoonup> ref"
  | UserState tags "ref option"

fun is_Channel :: "obj \<Rightarrow> bool" where
  "is_Channel (Channel n t) = True"
| "is_Channel other = False"

definition heap_get :: "obj list \<Rightarrow> ref \<Rightarrow> obj option" where
  "heap_get h r = (if r < length h then Some (h ! r) else None)"

text \<open>
  Modelled from the spec: \<^verbatim>\<open>UserState.update(tags)\<close> (user.ts is not in the sources) merges
  the incoming tags into the stored ones; a tag the message does not carry keeps its value.
\<close>

fun UserState_update :: "tags \<Rightarrow> obj \<Rightarrow> obj" where
  "UserState_update new (UserState old ch) = UserState (old ++ new) ch"
| "UserState_update new other = other"

subsection \<open>Events, socket and client state\<close>

datatype event =
    EvUnhandledCommand message_data
  | EvError js_error
  | EvPing
  | EvConnected
  | EvDisconnected bool bool
  | EvJoin "ref option" "ref option"
  | EvPart "ref option" "ref option"
  | EvMessage chat_message
  | EvGlobalUserState ref
  | EvUserState ref
  | EvRoomState message_data

datatype handler = OnConnect | OnClose | OnError | OnData

record tls_socket =
  sock_host :: string
  sock_port :: nat
  encoding :: "string option"
  listeners :: "(string \<times> handler) list"
  written :: "string list"

record identity =
  name :: jsval
  auth :: jsval

record connection_options =
  opt_host :: "string option"
  opt_port :: "nat option"

record client_options =
  identity :: "identity option"
  connection_opts :: "connection_options option"

record connection =
  host :: string
  port :: nat

record client =
  socket :: "tls_socket option"
  options :: client_options
  connection :: connection
  user :: "ref option"
  channels :: "string option \<rightharpoonup> ref option"
  heap :: "obj list"
  emitted :: "event list"
  client_listeners :: "string list"

definition defaultTMIHost :: string where
  "defaultTMIHost = ''irc.chat.twitch.tv''"

definition defaultTMIPort :: nat where
  "defaultTMIPort = 6697"

definition noopIRCCommands :: "string list" where
  "noopIRCCommands = [''CAP'', ''002'', ''003'', ''004'', ''353'', ''366'', ''375'', ''372'', ''376'']"

definition CRLF :: string where
  "CRLF = [CHR 0x0D, CHR 0x0A]"

text \<open>The constructor (lines 124-138).\<close>

definition Client :: "client_options \<Rightarrow> client" where
  "Client opts =
     (let connectionOpts =
            (case connection_opts opts of
               None \<Rightarrow> \<lparr>opt_host = None, opt_port = None\<rparr>
             | Some co \<Rightarrow> co)
      in \<lparr>socket = None,
          options = opts,
          connection =
            \<lparr>host = (case opt_host connectionOpts of None \<Rightarrow> defaultTMIHost | Some h \<Rightarrow> h),
             port = (case opt_port connectionOpts of None \<Rightarrow> defaultTMIPort | Some p \<Rightarrow> p)\<rparr>,
          user = None,
          channels = Map.empty,
          heap = [],
          emitted = [],
          client_listeners = []\<rparr>)"

subsection \<open>Primitives\<close>

definition emit :: "event \<Rightarrow> client \<Rightarrow> client" where
  "emit e c = c\<lparr>emitted := emitted c @ [e]\<rparr>"

text \<open>
  \<^verbatim>\<open>on(event, listener)\<close>, inherited from \<^verbatim>\<open>EventEmitter\<close> and declared at lines 30-82: the event
  has a listener from now on.
\<close>

definition on :: "string \<Rightarrow> client \<Rightarrow> client" where
  "on event c = c\<lparr>client_listeners := client_listeners c @ [event]\<rparr>"

text \<open>
  \<^verbatim>\<open>this.emit('error', err)\<close>: with a listener for \<^verbatim>\<open>error\<close> the event is emitted; with none,
  \<^verbatim>\<open>EventEmitter\<close> throws \<^verbatim>\<open>err\<close> and no listener of the client runs.
\<close>

definition emitError :: "js_error \<Rightarrow> client \<Rightarrow> outcome \<times> client" where
  "emitError err c =
     (if ''error'' \<in> set (client_listeners c) then (Returned, emit (EvError err) c)
      else (Threw err, c))"

text \<open>\<^verbatim>\<open>new\<close>: the object is stored at the first unused address, \<open>fresh c\<close>.\<close>

definition fresh :: "client \<Rightarrow> ref" where
  "fresh c = length (heap c)"

definition allocate :: "obj \<Rightarrow> client \<Rightarrow> client" where
  "allocate x c = c\<lparr>heap := heap c @ [x]\<rparr>"

definition store :: "ref \<Rightarrow> obj \<Rightarrow> client \<Rightarrow> client" where
  "store r x c = c\<lparr>heap := (heap c)[r := x]\<rparr>"

text \<open>Sequencing: the statement after a call runs only when the call returned.\<close>

definition andThen :: "outcome \<times> client \<Rightarrow> (client \<Rightarrow> outcome \<times> client) \<Rightarrow> outcome \<times> client" where
  "andThen r f = (case r of (Returned, c) \<Rightarrow> f c | (Threw e, c) \<Rightarrow> (Threw e, c))"

text \<open>\<^verbatim>\<open>Array.prototype.join\<close>.\<close>

fun array_join :: "string \<Rightarrow> string list \<Rightarrow> string" where
  "array_join sep [] = []"
| "array_join sep [x] = x"
| "array_join sep (x # y # ys) = x @ sep @ array_join sep (y # ys)"

text \<open>\<^verbatim>\<open>sendRaw\<close> (lines 293-299); \<^verbatim>\<open>this.socket\<close> is \<^verbatim>\<open>null\<close> until \<^verbatim>\<open>connect\<close> ran.\<close>

definition sendRaw :: "string \<Rightarrow> client \<Rightarrow> outcome \<times> client" where
  "sendRaw message c =
     (case socket c of
        None \<Rightarrow> (Threw TypeError, c)
      | Some s \<Rightarrow> (Returned, c\<lparr>socket := Some (s\<lparr>written := written s @ [message @ CRLF]\<rparr>)\<rparr>))"

text \<open>The callback of the write, run with an error when the write failed (lines 294-298).\<close>

definition writeFailed :: "js_error \<Rightarrow> client \<Rightarrow> outcome \<times> client" where
  "writeFailed err c = emitError err c"

text \<open>\<^verbatim>\<open>sendRawArray\<close> (lines 305-307).\<close>

definition sendRawArray :: "string list \<Rightarrow> client \<Rightarrow> outcome \<times> client" where
  "sendRawArray messages c = sendRaw (array_join CRLF messages) c"

subsection \<open>Connection handlers\<close>

text \<open>\<^verbatim>\<open>connect\<close> (lines 311-323) returns \<^verbatim>\<open>Promise.resolve()\<close>.\<close>

datatype promise = PromiseResolved | PromiseRejected js_error | PromisePending

definition connect :: "client \<Rightarrow> promise \<times> client" where
  "connect c =
     (let s = \<lparr>sock_host = host (connection c), sock_port = port (connection c),
                encoding = None, listeners = [], written = []\<rparr>;
          s = s\<lparr>encoding := Some ''utf8''\<rparr>;
          s = s\<lparr>listeners := listeners s @ [(''secureConnect'', OnConnect)]\<rparr>;
          s = s\<lparr>listeners := listeners s @ [(''close'', OnClose)]\<rparr>;
          s = s\<lparr>listeners := listeners s @ [(''error'', OnError)]\<rparr>;
          s = s\<lparr>listeners := listeners s @ [(''data'', OnData)]\<rparr>
      in (PromiseResolved, c\<lparr>socket := Some s\<rparr>))"

text \<open>\<^verbatim>\<open>_onConnect\<close> (lines 143-154); \<^verbatim>\<open>this.options.identity\<close> may be absent.\<close>

definition onConnect :: "client \<Rightarrow> outcome \<times> client" where
  "onConnect c =
     (case identity (options c) of
        None \<Rightarrow> (Threw TypeError, c)
      | Some i \<Rightarrow>
          (let nm = name i;
               au = ''oauth:'' @ template (auth i)
           in andThen
                (sendRawArray
                   [''CAP REQ :twitch.tv/tags twitch.tv/commands'',
                    ''PASS '' @ au,
                    ''NICK '' @ template nm] c)
                (\<lambda>c. (Returned, emit EvConnected c))))"

text \<open>\<^verbatim>\<open>_onClose\<close> (lines 160-166) and \<^verbatim>\<open>_onError\<close> (lines 173-175).\<close>

definition onClose :: "bool \<Rightarrow> client \<Rightarrow> outcome \<times> client" where
  "onClose hadError c =
     (let willReconnect = False;
          c = emit (EvDisconnected willReconnect hadError) c
      in if willReconnect then (Returned, snd (connect c)) else (Returned, c))"

definition onError :: "js_error \<Rightarrow> client \<Rightarrow> outcome \<times> client" where
  "onError error c = emitError error c"

subsection \<open>Dispatch of one decoded line\<close>

text \<open>Line 207: the message comes from the service pseudo-user.\<close>

definition fromServiceUser :: "tekko_message \<Rightarrow> bool" where
  "fromServiceUser m =
     (case prefix m of None \<Rightarrow> False | Some p \<Rightarrow> prefix_user p = Some ''jtv'')"

text \<open>Lines 213-219: the welcome numeric sets the identity's name.\<close>

definition handle001 :: "tekko_message \<Rightarrow> client \<Rightarrow> client" where
  "handle001 m c =
     (let nm = (case params m of [] \<Rightarrow> Undefined | x # xs \<Rightarrow> Str x)
      in case identity (options c) of
           None \<Rightarrow> c\<lparr>options := (options c)\<lparr>identity := Some \<lparr>name = nm, auth = Null\<rparr>\<rparr>\<rparr>
         | Some i \<Rightarrow> c\<lparr>options := (options c)\<lparr>identity := Some (i\<lparr>name := nm\<rparr>)\<rparr>\<rparr>)"

text \<open>\<^verbatim>\<open>if(channelName)\<close>: \<^verbatim>\<open>undefined\<close> and the empty string are falsy.\<close>

fun truthy :: "string option \<Rightarrow> bool" where
  "truthy None = False"
| "truthy (Some s) = (s \<noteq> [])"

text \<open>
  Lines 229-235. The result is the client after a possible \<^verbatim>\<open>new Channel\<close>; the resolved
  channel is \<open>resolved\<close> of the client before: the stored one, or the one just constructed.
\<close>

definition resolved :: "string option \<Rightarrow> client \<Rightarrow> ref option" where
  "resolved channelName c =
     (if truthy channelName then
        (case channels c channelName of
           Some (Some r) \<Rightarrow> Some r
         | other \<Rightarrow> Some (fresh c))
      else None)"

definition resolveChannel :: "string option \<Rightarrow> tags \<Rightarrow> client \<Rightarrow> client" where
  "resolveChannel channelName tgs c =
     (if truthy channelName then
        (case channels c channelName of
           Some (Some r) \<Rightarrow> c
         | other \<Rightarrow> allocate (Channel channelName tgs) c)
      else c)"

text \<open>
  Line 236: \<^verbatim>\<open>this.user && prefix.name === this.user.login\<close>. With no authenticated user the
  right operand is not evaluated; with one, \<^verbatim>\<open>prefix.name\<close> is read first.
\<close>

definition isSelf :: "message_prefix option \<Rightarrow> client \<Rightarrow> js_error + bool" where
  "isSelf pfx c =
     (case user c of
        None \<Rightarrow> Inr False
      | Some u \<Rightarrow>
          (case pfx of
             None \<Rightarrow> Inl TypeError
           | Some p \<Rightarrow>
               (case heap_get (heap c) u of
                  Some (ClientUser login t s) \<Rightarrow> Inr (Str (prefix_name p) = login)
                | other \<Rightarrow> Inl BadReference)))"

text \<open>
  Lines 243-246 and 255-258: the acting user is the authenticated one, or a \<^verbatim>\<open>new User\<close>
  whose address is \<open>fresh\<close> of the client before.
\<close>

definition actingUser ::
  "bool \<Rightarrow> message_prefix option \<Rightarrow> tags \<Rightarrow> ref option \<Rightarrow> (ref option \<Rightarrow> event) \<Rightarrow> client
     \<Rightarrow> outcome \<times> client" where
  "actingUser self pfx tgs channel ev c =
     (if \<not> self then
        (case pfx of
           None \<Rightarrow> (Threw TypeError, c)
         | Some p \<Rightarrow>
             (Returned, emit (ev (Some (fresh c))) (allocate (User (prefix_name p) tgs channel) c)))
      else (Returned, emit (ev (user c)) c))"

text \<open>Lines 241-248.\<close>

definition handleJOIN ::
  "string option \<Rightarrow> ref option \<Rightarrow> message_prefix option \<Rightarrow> tags \<Rightarrow> bool \<Rightarrow> client
     \<Rightarrow> outcome \<times> client" where
  "handleJOIN channelName channel pfx tgs self c =
     (let c = c\<lparr>channels := (channels c)(channelName \<mapsto> channel)\<rparr>
      in actingUser self pfx tgs channel (EvJoin channel) c)"

text \<open>Lines 249-260.\<close>

definition handlePART ::
  "string option \<Rightarrow> ref option \<Rightarrow> message_prefix option \<Rightarrow> tags \<Rightarrow> bool \<Rightarrow> client
     \<Rightarrow> outcome \<times> client" where
  "handlePART channelName channel pfx tgs self c =
     (let c = c\<lparr>channels := (channels c)(channelName := None)\<rparr>
      in case user c of
           None \<Rightarrow> (Threw TypeError, c)
         | Some u \<Rightarrow>
             (case heap_get (heap c) u of
                Some (ClientUser login t s) \<Rightarrow>
                  (let c = store u (ClientUser login t (s(channelName := None))) c;
                       ch = (case channel of None \<Rightarrow> Some (fresh c) | Some r \<Rightarrow> Some r);
                       c = (case channel of
                              None \<Rightarrow> allocate (Channel channelName tgs) c
                            | Some r \<Rightarrow> c)
                   in actingUser self pfx tgs ch (EvPart ch) c)
              | other \<Rightarrow> (Threw BadReference, c)))"

text \<open>Lines 261-268.\<close>

definition handleGLOBALUSERSTATE :: "tags \<Rightarrow> client \<Rightarrow> outcome \<times> client" where
  "handleGLOBALUSERSTATE tgs c =
     (let nm = (case identity (options c) of None \<Rightarrow> Null | Some i \<Rightarrow> name i);
          u = fresh c;
          c = allocate (ClientUser nm tgs Map.empty) c;
          c = c\<lparr>user := Some u\<rparr>
      in (Returned, emit (EvGlobalUserState u) c))"

text \<open>Lines 269-280.\<close>

definition handleUSERSTATE :: "string option \<Rightarrow> ref option \<Rightarrow> tags \<Rightarrow> client \<Rightarrow> outcome \<times> client" where
  "handleUSERSTATE channelName channel tgs c =
     (case user c of
        None \<Rightarrow> (Threw TypeError, c)
      | Some u \<Rightarrow>
          (case heap_get (heap c) u of
             Some (ClientUser login t s) \<Rightarrow>
               (case s channelName of
                  Some state \<Rightarrow>
                    (case heap_get (heap c) state of
                       Some (UserState old ch) \<Rightarrow>
                         (let c = store state (UserState_update tgs (UserState old ch)) c
                          in (Returned, emit (EvUserState state) c))
                     | other \<Rightarrow> (Threw BadReference, c))
                | None \<Rightarrow>
                    (let state = fresh c;
                         c = allocate (UserState tgs channel) c;
                         c = store u (ClientUser login t (s(channelName \<mapsto> state))) c
                     in (Returned, emit (EvUserState state) c)))
           | other \<Rightarrow> (Threw BadReference, c)))"

text \<open>Lines 226-287: the commands that reach the channel resolution.\<close>

definition handleCommand :: "message_data \<Rightarrow> client \<Rightarrow> outcome \<times> client" where
  "handleCommand data c =
     (let tgs = tags (decoded data);
          pfx = prefix (decoded data);
          cmd = command (decoded data);
          channelName = (case params (decoded data) of [] \<Rightarrow> None | x # xs \<Rightarrow> Some x);
          channel = resolved channelName c;
          c = resolveChannel channelName tgs c
      in case isSelf pfx c of
           Inl e \<Rightarrow> (Threw e, c)
         | Inr self \<Rightarrow>
             if cmd = ''PRIVMSG'' then (Returned, emit (EvMessage (ChatMessage data)) c)
             else if cmd = ''JOIN'' then handleJOIN channelName channel pfx tgs self c
             else if cmd = ''PART'' then handlePART channelName channel pfx tgs self c
             else if cmd = ''GLOBALUSERSTATE'' then handleGLOBALUSERSTATE tgs c
             else if cmd = ''USERSTATE'' then handleUSERSTATE channelName channel tgs c
             else if cmd = ''ROOMSTATE'' then (Returned, emit (EvRoomState data) c)
             else (Returned, emit (EvUnhandledCommand data) c))"

text \<open>Lines 201-287: the dispatch of the decoded message \<^verbatim>\<open>parsedData\<close>.\<close>

definition dispatch :: "tekko_message \<Rightarrow> client \<Rightarrow> outcome \<times> client" where
  "dispatch parsedData c =
     (if command parsedData = ''PING'' then
        andThen (sendRaw ''PONG :tmi.twitch.tv'' c) (\<lambda>c. (Returned, emit EvPing c))
      else if fromServiceUser parsedData then (Returned, c)
      else if command parsedData = ''001'' then (Returned, handle001 parsedData c)
      else if command parsedData \<in> set noopIRCCommands then (Returned, c)
      else handleCommand (MessageData parsedData) c)"

text \<open>
  \<^verbatim>\<open>_handleMessage\<close> (lines 198-287): \<open>parse\<close> stands for \<^verbatim>\<open>tekko.parse\<close>, \<open>None\<close> when it
  throws; nothing catches the exception.
\<close>

definition handleMessage :: "(string \<Rightarrow> tekko_message option) \<Rightarrow> string \<Rightarrow> client \<Rightarrow> outcome \<times> client" where
  "handleMessage parse message c =
     (case parse message of
        None \<Rightarrow> (Threw DecodeFailure, c)
      | Some parsedData \<Rightarrow> dispatch (parsedData\<lparr>raw := message\<rparr>) c)"

subsection \<open>Outbound command builders\<close>

text \<open>
  Modelled from the spec: \<^verbatim>\<open>tekko.format\<close> is the external codec's
  \<^verbatim>\<open>encode({command, params[] | middle[] + trailing}) -> line\<close> (section 4.1): the command
  token, the space-separated parameters and, after a colon, the trailing parameter
  (section 6). Given \<^verbatim>\<open>middle\<close> or \<^verbatim>\<open>trailing\<close>, these are written as such. Given only
  \<^verbatim>\<open>params\<close>, the last element is written after a colon when \<open>marks\<close> says so: \<open>marks\<close> is
  the codec's rule for that, a parameter of the model. A line decodes back to its
  parameters only if a last parameter that contains a space is marked.
\<close>

record format_input =
  format_command :: string
  format_middle :: "string list option"
  format_trailing :: "string option"
  format_params :: "string list option"

definition spaced :: "string list \<Rightarrow> string" where
  "spaced ps = concat (map (\<lambda>p. CHR '' '' # p) ps)"

definition tekko_format :: "(string \<Rightarrow> bool) \<Rightarrow> format_input \<Rightarrow> string" where
  "tekko_format marks f =
     (if format_middle f \<noteq> None \<or> format_trailing f \<noteq> None then
        format_command f
        @ spaced (case format_middle f of None \<Rightarrow> [] | Some ms \<Rightarrow> ms)
        @ (case format_trailing f of None \<Rightarrow> [] | Some t \<Rightarrow> '' :'' @ t)
      else
        (case format_params f of
           None \<Rightarrow> format_command f
         | Some [] \<Rightarrow> format_command f
         | Some ps \<Rightarrow>
             format_command f @ spaced (butlast ps)
             @ (if marks (last ps) then '' :'' else '' '') @ last ps))"

text \<open>
  The argument \<^verbatim>\<open>params: string | string[]\<close> of \<^verbatim>\<open>sendCommand\<close>. The argument \<open>channel\<close> of
  \<open>sendCommand\<close> and \<open>say\<close> is the string \<^verbatim>\<open>channel.toString()\<close>.
\<close>

datatype command_params = ParamString string | ParamArray "string list"

text \<open>\<^verbatim>\<open>sendCommand\<close> (lines 331-343).\<close>

definition sendCommand ::
  "(string \<Rightarrow> bool) \<Rightarrow> string \<Rightarrow> string \<Rightarrow> command_params \<Rightarrow> client \<Rightarrow> outcome \<times> client" where
  "sendCommand marks channel cmd ps c =
     (let commandParams = (case ps of ParamArray xs \<Rightarrow> array_join '' '' xs | ParamString x \<Rightarrow> x);
          ircMessage = tekko_format marks
            \<lparr>format_command = ''PRIVMSG'',
             format_middle = Some [channel],
             format_trailing = Some (''/'' @ cmd @ '' '' @ commandParams),
             format_params = None\<rparr>
      in sendRaw ircMessage c)"

text \<open>\<^verbatim>\<open>join\<close> (lines 349-355) and \<^verbatim>\<open>part\<close> (lines 361-367).\<close>

definition join :: "(string \<Rightarrow> bool) \<Rightarrow> string \<Rightarrow> client \<Rightarrow> outcome \<times> client" where
  "join marks roomName c =
     sendRaw (tekko_format marks
       \<lparr>format_command = ''JOIN'', format_middle = Some [roomName],
        format_trailing = None, format_params = None\<rparr>) c"

definition part :: "(string \<Rightarrow> bool) \<Rightarrow> string \<Rightarrow> client \<Rightarrow> outcome \<times> client" where
  "part marks roomName c =
     sendRaw (tekko_format marks
       \<lparr>format_command = ''PART'', format_middle = Some [roomName],
        format_trailing = None, format_params = None\<rparr>) c"

text \<open>\<^verbatim>\<open>say\<close> (lines 374-381).\<close>

definition say :: "(string \<Rightarrow> bool) \<Rightarrow> string \<Rightarrow> string \<Rightarrow> client \<Rightarrow> outcome \<times> client" where
  "say marks channel message c =
     sendRaw (tekko_format marks
       \<lparr>format_command = ''PRIVMSG'', format_middle = None,
        format_trailing = None, format_params = Some [channel, message]\<rparr>) c"

subsection \<open>Reachable states\<close>

text \<open>
  The states a client can be in: the constructor's, and the state any method or handler
  leaves, whether it returned or threw. \<^verbatim>\<open>_onData\<close> (lines 181-191) calls \<^verbatim>\<open>_handleMessage\<close> on
  each line of a chunk: its states are those of \<open>handleMessage\<close>, taken here for any line.
\<close>

inductive reachable :: "client \<Rightarrow> bool" where
  r_Client: "reachable (Client opts)"
| r_connect: "reachable c \<Longrightarrow> reachable (snd (connect c))"
| r_onConnect: "reachable c \<Longrightarrow> reachable (snd (onConnect c))"
| r_onClose: "reachable c \<Longrightarrow> reachable (snd (onClose hadError c))"
| r_onError: "reachable c \<Longrightarrow> reachable (snd (onError err c))"
| r_writeFailed: "reachable c \<Longrightarrow> reachable (snd (writeFailed err c))"
| r_handleMessage: "reachable c \<Longrightarrow> reachable (snd (handleMessage parse message c))"
| r_sendRaw: "reachable c \<Longrightarrow> reachable (snd (sendRaw message c))"
| r_sendRawArray: "reachable c \<Longrightarrow> reachable (snd (sendRawArray messages c))"
| r_sendCommand: "reachable c \<Longrightarrow> reachable (snd (sendCommand marks channel cmd ps c))"
| r_join: "reachable c \<Longrightarrow> reachable (snd (join marks roomName c))"
| r_part: "reachable c \<Longrightarrow> reachable (snd (part marks roomName c))"
| r_say: "reachable c \<Longrightarrow> reachable (snd (say marks channel message c))"
| r_on: "reachable c \<Longrightarrow> reachable (on event c)"

text \<open>
  The heap is well formed: the authenticated user is a \<^verbatim>\<open>ClientUser\<close> whose \<^verbatim>\<open>states\<close> hold
  \<^verbatim>\<open>UserState\<close> objects, and a channel stored under a name is a \<^verbatim>\<open>Channel\<close> of that name,
  which is not empty.
\<close>

definition well_formed :: "client \<Rightarrow> bool" where
  "well_formed c \<longleftrightarrow>
     (\<forall>u. user c = Some u \<longrightarrow>
        (\<exists>login t s. heap_get (heap c) u = Some (ClientUser login t s) \<and>
           (\<forall>k r. s k = Some r \<longrightarrow> (\<exists>old ch. heap_get (heap c) r = Some (UserState old ch))))) \<and>
     (\<forall>k r. channels c k = Some (Some r) \<longrightarrow>
        truthy k \<and> (\<exists>t. heap_get (heap c) r = Some (Channel k t)))"

subsection \<open>Sample inputs\<close>

text \<open>Concrete options, clients and decoded lines, at which the theorems below are evaluated.\<close>

definition sample_options :: client_options where
  "sample_options =
     \<lparr>identity = Some \<lparr>name = Str ''bot'', auth = Str ''token''\<rparr>, connection_opts = None\<rparr>"

definition connected_client :: client where
  "connected_client = snd (connect (Client sample_options))"

text \<open>A client of the sample options on which a listener for \<^verbatim>\<open>error\<close> was registered.\<close>

definition listening_client :: client where
  "listening_client = on ''error'' (Client sample_options)"

definition server_prefix :: message_prefix where
  "server_prefix = \<lparr>prefix_name = ''tmi.twitch.tv'', prefix_user = None, prefix_host = None\<rparr>"

definition alice_prefix :: message_prefix where
  "alice_prefix =
     \<lparr>prefix_name = ''alice'', prefix_user = Some ''alice'',
      prefix_host = Some ''alice.tmi.twitch.tv''\<rparr>"

definition jtv_prefix :: message_prefix where
  "jtv_prefix =
     \<lparr>prefix_name = ''jtv'', prefix_user = Some ''jtv'', prefix_host = Some ''jtv.tmi.twitch.tv''\<rparr>"

definition line :: "message_prefix option \<Rightarrow> string \<Rightarrow> string list \<Rightarrow> tags \<Rightarrow> tekko_message" where
  "line pfx cmd ps tgs = \<lparr>raw = [], command = cmd, tags = tgs, prefix = pfx, params = ps\<rparr>"

text \<open>The connected client after the line \<^verbatim>\<open>:tmi.twitch.tv GLOBALUSERSTATE\<close>.\<close>

definition authenticated_client :: client where
  "authenticated_client =
     snd (dispatch (line (Some server_prefix) ''GLOBALUSERSTATE'' [] Map.empty) connected_client)"

text \<open>The authenticated client after the line \<^verbatim>\<open>:alice!alice@alice.tmi.twitch.tv JOIN #channel\<close>.\<close>

definition joined_client :: client where
  "joined_client =
     snd (dispatch (line (Some alice_prefix) ''JOIN'' [''#channel''] Map.empty) authenticated_client)"

subsection \<open>Channel instances of two heaps\<close>

text \<open>
  The second heap holds the \<^verbatim>\<open>Channel\<close> objects of the first, each at its address and
  unchanged, and no other \<^verbatim>\<open>Channel\<close>.
\<close>

definition channels_kept :: "client \<Rightarrow> client \<Rightarrow> bool" where
  "channels_kept c c' \<longleftrightarrow>
     filter is_Channel (heap c') = filter is_Channel (heap c) \<and>
     (\<forall>r n t. heap_get (heap c) r = Some (Channel n t) \<longrightarrow> heap_get (heap c') r = Some (Channel n t))"

section \<open>Heap lemmas and the invariant of reachable states\<close>

lemma heap_get_append:
  "heap_get (h @ [x]) r = (if r < length h then heap_get h r else if r = length h then Some x else None)"
  by (simp add: heap_get_def nth_append)

lemma heap_get_update:
  "heap_get (h[i := x]) r = (if r = i \<and> i < length h then Some x else heap_get h r)"
  by (simp add: heap_get_def)

lemma heap_get_Some_less: "heap_get h r = Some x \<Longrightarrow> r < length h"
  by (simp add: heap_get_def split: if_splits)

lemma heap_get_append_Some: "heap_get h r = Some y \<Longrightarrow> heap_get (h @ [x]) r = Some y"
  by (simp add: heap_get_def nth_append split: if_splits)

lemma heap_get_fresh: "heap_get (h @ [x]) (length h) = Some x"
  by (simp add: heap_get_def)

lemma wf_emit: "well_formed (emit e c) = well_formed c"
  by (simp add: well_formed_def emit_def)

lemma wf_socket: "well_formed (c\<lparr>socket := s\<rparr>) = well_formed c"
  by (simp add: well_formed_def)

lemma wf_listeners: "well_formed (c\<lparr>client_listeners := s\<rparr>) = well_formed c"
  by (simp add: well_formed_def)

lemma wf_emitError: "well_formed c \<Longrightarrow> well_formed (snd (emitError err c))"
  by (simp add: emitError_def wf_emit)

lemma wf_options: "well_formed (c\<lparr>options := s\<rparr>) = well_formed c"
  by (simp add: well_formed_def)

lemma wf_allocate: "well_formed c \<Longrightarrow> well_formed (allocate x c)"
  unfolding well_formed_def allocate_def
  by simp (meson heap_get_append_Some)

lemma wf_store_state:
  assumes "well_formed c" "heap_get (heap c) r = Some (UserState old ch)"
  shows "well_formed (store r (UserState new ch') c)"
  using assms unfolding well_formed_def store_def
  by (simp add: heap_get_update) (metis obj.distinct(6,12) option.inject)

lemma wf_store_user:
  assumes "well_formed c" "user c = Some u" "heap_get (heap c) u = Some (ClientUser l t s)"
    "\<forall>k r. s' k = Some r \<longrightarrow> (\<exists>old ch. heap_get (heap c) r = Some (UserState old ch))"
  shows "well_formed (store u (ClientUser l' t' s') c)"
  using assms unfolding well_formed_def store_def
  by (simp add: heap_get_update) (metis obj.distinct(4,12) option.inject)

lemma wf_set_user:
  assumes "well_formed c" "heap_get (heap c) u = Some (ClientUser l t Map.empty)"
  shows "well_formed (c\<lparr>user := Some u\<rparr>)"
  using assms unfolding well_formed_def by simp

lemma wf_set_channel:
  assumes "well_formed c"
    and "case ch of None \<Rightarrow> True
         | Some r \<Rightarrow> truthy k \<and> (\<exists>t. heap_get (heap c) r = Some (Channel k t))"
  shows "well_formed (c\<lparr>channels := (channels c)(k \<mapsto> ch)\<rparr>)"
  using assms unfolding well_formed_def by (auto split: option.splits)

lemma wf_delete_channel:
  assumes "well_formed c"
  shows "well_formed (c\<lparr>channels := (channels c)(k := None)\<rparr>)"
  using assms unfolding well_formed_def by (auto split: option.splits)

lemma wf_resolveChannel: "well_formed c \<Longrightarrow> well_formed (resolveChannel k tgs c)"
  by (simp add: resolveChannel_def wf_allocate split: option.splits)

lemma resolved_is_Channel:
  assumes "well_formed c" "resolved k c = Some r"
  shows "truthy k \<and> (\<exists>t. heap_get (heap (resolveChannel k tgs c)) r = Some (Channel k t))"
proof (cases "channels c k")
  case None
  with assms(2) show ?thesis
    by (auto simp: resolved_def resolveChannel_def allocate_def fresh_def heap_get_fresh split: if_splits)
next
  case (Some v)
  show ?thesis
  proof (cases v)
    case None
    with Some assms(2) show ?thesis
      by (auto simp: resolved_def resolveChannel_def allocate_def fresh_def heap_get_fresh split: if_splits)
  next
    case (Some r')
    with \<open>channels c k = Some v\<close> assms show ?thesis
      by (auto simp: resolved_def resolveChannel_def well_formed_def split: if_splits)
  qed
qed

lemma wf_actingUser: "well_formed c \<Longrightarrow> well_formed (snd (actingUser self pfx tgs ch ev c))"
  by (simp add: actingUser_def wf_emit wf_allocate split: option.splits)

lemma wf_handleJOIN:
  assumes "well_formed c"
    and "case ch of None \<Rightarrow> True
         | Some r \<Rightarrow> truthy k \<and> (\<exists>t. heap_get (heap c) r = Some (Channel k t))"
  shows "well_formed (snd (handleJOIN k ch pfx tgs self c))"
  using assms by (simp add: handleJOIN_def wf_actingUser wf_set_channel)

lemma wf_handleGLOBALUSERSTATE:
  assumes "well_formed c"
  shows "well_formed (snd (handleGLOBALUSERSTATE tgs c))"
proof -
  let ?x = "ClientUser (case identity (options c) of None \<Rightarrow> Null | Some i \<Rightarrow> name i) tgs Map.empty"
  have "well_formed (allocate ?x c)" using assms by (rule wf_allocate)
  moreover have "heap_get (heap (allocate ?x c)) (fresh c) = Some ?x"
    by (simp add: allocate_def fresh_def heap_get_fresh)
  ultimately have "well_formed ((allocate ?x c)\<lparr>user := Some (fresh c)\<rparr>)"
    by (rule wf_set_user)
  then show ?thesis
    by (simp add: handleGLOBALUSERSTATE_def Let_def wf_emit)
qed

lemma wf_handlePART:
  assumes wf: "well_formed c"
  shows "well_formed (snd (handlePART k chn pfx tgs self c))"
proof -
  let ?c1 = "c\<lparr>channels := (channels c)(k := None)\<rparr>"
  have wf1: "well_formed ?c1" using wf by (rule wf_delete_channel)
  show ?thesis
  proof (cases "user c")
    case None
    then show ?thesis using wf1 by (simp add: handlePART_def)
  next
    case (Some u)
    from wf Some obtain l t s where cu: "heap_get (heap c) u = Some (ClientUser l t s)"
      and st: "\<forall>k r. s k = Some r \<longrightarrow> (\<exists>old ch. heap_get (heap c) r = Some (UserState old ch))"
      unfolding well_formed_def by blast
    let ?c2 = "store u (ClientUser l t (s(k := None))) ?c1"
    have wf2: "well_formed ?c2"
      by (rule wf_store_user [OF wf1, where l = l and t = t and s = s]) (use Some cu st in auto)
    have wf3: "well_formed (allocate x ?c2)" for x using wf2 by (rule wf_allocate)
    show ?thesis using Some cu wf2 wf3
      by (simp add: handlePART_def Let_def wf_actingUser split: option.splits)
  qed
qed

lemma wf_handleUSERSTATE:
  assumes wf: "well_formed c"
  shows "well_formed (snd (handleUSERSTATE k chn tgs c))"
proof (cases "user c")
  case None
  then show ?thesis using wf by (simp add: handleUSERSTATE_def)
next
  case (Some u)
  from wf Some obtain l t s where cu: "heap_get (heap c) u = Some (ClientUser l t s)"
    and st: "\<forall>k r. s k = Some r \<longrightarrow> (\<exists>old ch. heap_get (heap c) r = Some (UserState old ch))"
    unfolding well_formed_def by blast
  show ?thesis
  proof (cases "s k")
    case None
    let ?c1 = "allocate (UserState tgs chn) c"
    have wf1: "well_formed ?c1" using wf by (rule wf_allocate)
    have cu1: "heap_get (heap ?c1) u = Some (ClientUser l t s)"
      using cu by (simp add: allocate_def heap_get_append_Some)
    have "well_formed (store u (ClientUser l t (s(k \<mapsto> fresh c))) ?c1)"
    proof (rule wf_store_user [OF wf1 _ cu1])
      show "user ?c1 = Some u" using Some by (simp add: allocate_def)
      show "\<forall>k' r. (s(k \<mapsto> fresh c)) k' = Some r \<longrightarrow>
              (\<exists>old ch. heap_get (heap ?c1) r = Some (UserState old ch))"
        using st by (simp add: allocate_def fresh_def heap_get_fresh) (meson heap_get_append_Some)
    qed
    then show ?thesis using Some cu None
      by (simp add: handleUSERSTATE_def Let_def wf_emit)
  next
    case (Some r)
    with st obtain old ch where us: "heap_get (heap c) r = Some (UserState old ch)" by blast
    have "well_formed (store r (UserState (old ++ tgs) ch) c)"
      using wf us by (rule wf_store_state)
    then show ?thesis using \<open>user c = Some u\<close> cu Some us
      by (simp add: handleUSERSTATE_def Let_def wf_emit)
  qed
qed

lemma wf_handleCommand:
  assumes wf: "well_formed c"
  shows "well_formed (snd (handleCommand d c))"
proof -
  let ?k = "case params (decoded d) of [] \<Rightarrow> None | x # xs \<Rightarrow> Some x"
  let ?c1 = "resolveChannel ?k (tags (decoded d)) c"
  have wf1: "well_formed ?c1" using wf by (rule wf_resolveChannel)
  have ch: "case resolved ?k c of None \<Rightarrow> True
            | Some r \<Rightarrow> truthy ?k \<and> (\<exists>t. heap_get (heap ?c1) r = Some (Channel ?k t))"
    using resolved_is_Channel [OF wf] by (auto split: option.splits)
  show ?thesis using wf1 ch
    by (simp add: handleCommand_def Let_def wf_emit wf_handleJOIN wf_handlePART
        wf_handleGLOBALUSERSTATE wf_handleUSERSTATE split: sum.splits)
qed

lemma wf_sendRaw: "well_formed c \<Longrightarrow> well_formed (snd (sendRaw m c))"
  by (simp add: sendRaw_def wf_socket split: option.splits)

lemma wf_handle001: "well_formed c \<Longrightarrow> well_formed (handle001 m c)"
  by (simp add: handle001_def Let_def wf_options split: option.splits)

lemma wf_dispatch: "well_formed c \<Longrightarrow> well_formed (snd (dispatch m c))"
  by (auto simp: dispatch_def andThen_def sendRaw_def wf_socket wf_emit wf_handle001
      wf_handleCommand split: option.splits)

lemma wf_Client: "well_formed (Client opts)"
  by (simp add: Client_def well_formed_def Let_def)

lemma reachable_well_formed: "reachable c \<Longrightarrow> well_formed c"
proof (induction rule: reachable.induct)
  case (r_Client opts)
  show ?case by (rule wf_Client)
next
  case (r_handleMessage c parse message)
  then show ?case by (simp add: handleMessage_def wf_dispatch split: option.splits)
next
  case (r_onConnect c)
  then show ?case
    by (auto simp: onConnect_def andThen_def sendRawArray_def sendRaw_def wf_socket wf_emit Let_def
        split: option.splits)
next
  case (r_onClose c hadError)
  then show ?case by (simp add: onClose_def Let_def wf_emit)
qed (simp_all add: connect_def Let_def wf_socket onError_def writeFailed_def wf_emitError
      on_def wf_listeners wf_emit wf_sendRaw
      sendRawArray_def sendCommand_def join_def part_def say_def)

subsection \<open>Frame lemmas\<close>

lemma handleMessage_dispatch:
  "parse message = Some p \<Longrightarrow> handleMessage parse message c = dispatch (p\<lparr>raw := message\<rparr>) c"
  by (simp add: handleMessage_def)

lemma reachable_dispatch:
  assumes "reachable c"
  shows "reachable (snd (dispatch m c))"
proof -
  have "handleMessage (\<lambda>l. Some m) (raw m) c = dispatch m c"
    by (simp add: handleMessage_def)
  with r_handleMessage [OF assms, of "\<lambda>l. Some m" "raw m"] show ?thesis by simp
qed

lemma isSelf_total:
  assumes "well_formed c" and "pfx \<noteq> None \<or> user c = None"
  shows "\<exists>b. isSelf pfx c = Inr b"
proof (cases "user c")
  case None
  then have "isSelf pfx c = Inr False" by (simp add: isSelf_def)
  then show ?thesis by blast
next
  case (Some u)
  with assms(1) obtain l t s where "heap_get (heap c) u = Some (ClientUser l t s)"
    unfolding well_formed_def by blast
  with Some assms(2) show ?thesis by (auto simp: isSelf_def)
qed

lemma resolveChannel_fields [simp]:
  "user (resolveChannel k t c) = user c"
  "channels (resolveChannel k t c) = channels c"
  "options (resolveChannel k t c) = options c"
  "socket (resolveChannel k t c) = socket c"
  "emitted (resolveChannel k t c) = emitted c"
  "connection (resolveChannel k t c) = connection c"
  by (simp_all add: resolveChannel_def allocate_def split: option.splits)

lemma resolveChannel_heap_get:
  "heap_get (heap c) r = Some x \<Longrightarrow> heap_get (heap (resolveChannel k t c)) r = Some x"
  by (simp add: resolveChannel_def allocate_def heap_get_append_Some split: option.splits)

lemma resolveChannel_fresh: "fresh c \<le> fresh (resolveChannel k t c)"
  by (simp add: resolveChannel_def allocate_def fresh_def split: option.splits)

lemma heap_get_None: "length h \<le> r \<Longrightarrow> heap_get h r = None"
  by (simp add: heap_get_def)

lemma actingUser_fields [simp]:
  "user (snd (actingUser self pfx tgs ch ev c)) = user c"
  "channels (snd (actingUser self pfx tgs ch ev c)) = channels c"
  "options (snd (actingUser self pfx tgs ch ev c)) = options c"
  "socket (snd (actingUser self pfx tgs ch ev c)) = socket c"
  by (simp_all add: actingUser_def emit_def allocate_def split: option.splits)

lemma actingUser_heap_get:
  "heap_get (heap c) r = Some x \<Longrightarrow> heap_get (heap (snd (actingUser self pfx tgs ch ev c))) r = Some x"
  by (simp add: actingUser_def emit_def allocate_def heap_get_append_Some split: option.splits)

lemma resolved_truthy: "truthy k \<Longrightarrow> \<exists>r. resolved k c = Some r"
  by (simp add: resolved_def split: option.splits)

lemma handlePART_channels:
  "channels (snd (handlePART k ch pfx tgs self c)) = (channels c)(k := None)"
  by (simp add: handlePART_def Let_def store_def allocate_def split: option.splits obj.splits)

lemma handleJOIN_channels:
  "channels (snd (handleJOIN k ch pfx tgs self c)) = (channels c)(k \<mapsto> ch)"
  by (simp add: handleJOIN_def Let_def)

lemma handleGLOBALUSERSTATE_channels:
  "channels (snd (handleGLOBALUSERSTATE tgs c)) = channels c"
  by (simp add: handleGLOBALUSERSTATE_def Let_def emit_def allocate_def)

lemma handleUSERSTATE_channels:
  "channels (snd (handleUSERSTATE k ch tgs c)) = channels c"
  by (simp add: handleUSERSTATE_def Let_def emit_def allocate_def store_def
      split: option.splits obj.splits)

lemma resolve_stored:
  assumes "channels c (Some C) = Some (Some r)" and "C \<noteq> []"
  shows "resolveChannel (Some C) tgs c = c" and "resolved (Some C) c = Some r"
  using assms by (simp_all add: resolveChannel_def resolved_def)

subsection \<open>No reference dangles\<close>

text \<open>On a well-formed heap the dispatch never faults for a missing or ill-typed object.\<close>

lemma actingUser_no_BadReference: "fst (actingUser self pfx tgs ch ev c) \<noteq> Threw BadReference"
  by (simp add: actingUser_def split: option.splits)

lemma handleCommand_no_BadReference:
  assumes wf: "well_formed c"
  shows "fst (handleCommand d c) \<noteq> Threw BadReference"
proof -
  let ?k = "case params (decoded d) of [] \<Rightarrow> None | x # xs \<Rightarrow> Some x"
  let ?c1 = "resolveChannel ?k (tags (decoded d)) c"
  have wf1: "well_formed ?c1" using wf by (rule wf_resolveChannel)
  show ?thesis
  proof (cases "user ?c1")
    case None
    then show ?thesis
      by (simp add: handleCommand_def Let_def isSelf_def handleJOIN_def handlePART_def
          handleGLOBALUSERSTATE_def handleUSERSTATE_def actingUser_no_BadReference)
  next
    case (Some u)
    with wf1 obtain l t s where cu: "heap_get (heap ?c1) u = Some (ClientUser l t s)"
      and st: "\<forall>k r. s k = Some r \<longrightarrow> (\<exists>old ch. heap_get (heap ?c1) r = Some (UserState old ch))"
      unfolding well_formed_def by blast
    have us: "fst (handleUSERSTATE k ch tgs ?c1) \<noteq> Threw BadReference" for k ch tgs
    proof (cases "s k")
      case None
      with Some cu show ?thesis by (simp add: handleUSERSTATE_def Let_def)
    next
      case (Some r)
      with st obtain old ch' where "heap_get (heap ?c1) r = Some (UserState old ch')" by blast
      with \<open>user ?c1 = Some u\<close> cu Some show ?thesis by (simp add: handleUSERSTATE_def Let_def)
    qed
    have pa: "fst (handlePART k ch pfx tgs self ?c1) \<noteq> Threw BadReference" for k ch pfx tgs self
      using Some cu by (simp add: handlePART_def Let_def actingUser_no_BadReference)
    show ?thesis
      using Some cu us pa
      by (simp add: handleCommand_def Let_def isSelf_def handleJOIN_def
          handleGLOBALUSERSTATE_def actingUser_no_BadReference split: option.splits)
  qed
qed

lemma dispatch_no_BadReference:
  assumes "well_formed c"
  shows "fst (dispatch m c) \<noteq> Threw BadReference"
  using handleCommand_no_BadReference [OF assms, of "MessageData m"]
  by (simp add: dispatch_def andThen_def sendRaw_def split: option.splits)

subsection \<open>Handlers that construct no channel\<close>

lemma filter_list_update:
  "i < length h \<Longrightarrow> \<not> P (h ! i) \<Longrightarrow> \<not> P y \<Longrightarrow> filter P (h[i := y]) = filter P h"
  by (induction h arbitrary: i) (auto split: nat.splits)

lemma kept_refl [simp]: "channels_kept c c"
  by (simp add: channels_kept_def)

lemma kept_trans: "channels_kept c c1 \<Longrightarrow> channels_kept c1 c2 \<Longrightarrow> channels_kept c c2"
  by (simp add: channels_kept_def)

lemma kept_heap_eq: "heap c' = heap c \<Longrightarrow> channels_kept c c'"
  by (simp add: channels_kept_def)

lemma kept_emit: "channels_kept c (emit e c)"
  by (simp add: kept_heap_eq emit_def)

lemma kept_allocate: "\<not> is_Channel x \<Longrightarrow> channels_kept c (allocate x c)"
  by (simp add: channels_kept_def allocate_def heap_get_append_Some)

lemma kept_store:
  assumes "heap_get (heap c) i = Some y" and "\<not> is_Channel y" and "\<not> is_Channel x"
  shows "channels_kept c (store i x c)"
proof -
  have i: "i < length (heap c)" and y: "heap c ! i = y"
    using assms(1) by (simp_all add: heap_get_def split: if_splits)
  have "filter is_Channel ((heap c)[i := x]) = filter is_Channel (heap c)"
    using i y assms(2,3) by (simp add: filter_list_update)
  moreover have "heap_get ((heap c)[i := x]) r = Some (Channel n t)"
    if "heap_get (heap c) r = Some (Channel n t)" for r n t
    using that assms(1,2) by (auto simp: heap_get_update)
  ultimately show ?thesis by (simp add: channels_kept_def store_def)
qed

lemma kept_actingUser: "channels_kept c (snd (actingUser self pfx tgs ch ev c))"
proof -
  have "channels_kept c (emit e (allocate (User n tgs ch) c))" for e n
    by (rule kept_trans [OF kept_allocate kept_emit]) simp
  then show ?thesis
    by (simp add: actingUser_def kept_emit split: option.splits)
qed

lemma kept_handleJOIN: "channels_kept c (snd (handleJOIN k ch pfx tgs self c))"
proof -
  have "channels_kept c (c\<lparr>channels := (channels c)(k \<mapsto> ch)\<rparr>)"
    by (simp add: kept_heap_eq)
  then show ?thesis
    unfolding handleJOIN_def Let_def by (rule kept_trans) (rule kept_actingUser)
qed

lemma kept_handlePART: "channels_kept c (snd (handlePART k (Some r) pfx tgs self c))"
proof -
  let ?c1 = "c\<lparr>channels := (channels c)(k := None)\<rparr>"
  have 1: "channels_kept c ?c1" by (simp add: kept_heap_eq)
  have 2: "channels_kept ?c1 (snd (actingUser self pfx tgs (Some r) (EvPart (Some r))
              (store u (ClientUser l t s') ?c1)))"
    if "heap_get (heap c) u = Some (ClientUser l t s)" for u l t s s'
    by (rule kept_trans [OF kept_store [where y = "ClientUser l t s"] kept_actingUser])
      (use that in simp_all)
  show ?thesis
    using 1 2 by (auto simp: handlePART_def Let_def split: option.splits obj.splits intro: kept_trans)
qed

lemma kept_handleGLOBALUSERSTATE: "channels_kept c (snd (handleGLOBALUSERSTATE tgs c))"
proof -
  have "channels_kept c (allocate (ClientUser n tgs Map.empty) c)" for n
    by (rule kept_allocate) simp
  then show ?thesis
    by (simp add: handleGLOBALUSERSTATE_def Let_def channels_kept_def emit_def)
qed

lemma kept_handleUSERSTATE: "channels_kept c (snd (handleUSERSTATE k ch tgs c))"
proof -
  have 1: "channels_kept c (emit e (store r (UserState new ch') c))"
    if "heap_get (heap c) r = Some (UserState old ch')" for e r new old ch'
    by (rule kept_trans [OF kept_store [where y = "UserState old ch'"] kept_emit])
      (use that in simp_all)
  have 2: "channels_kept c (emit e (store u (ClientUser l t s') (allocate (UserState tgs ch) c)))"
    if "heap_get (heap c) u = Some (ClientUser l t s)" for e u l t s s'
  proof -
    have a: "channels_kept c (allocate (UserState tgs ch) c)" by (rule kept_allocate) simp
    have "heap_get (heap (allocate (UserState tgs ch) c)) u = Some (ClientUser l t s)"
      using that by (simp add: allocate_def heap_get_append_Some)
    then have b: "channels_kept (allocate (UserState tgs ch) c)
                    (store u (ClientUser l t s') (allocate (UserState tgs ch) c))"
      by (rule kept_store [where y = "ClientUser l t s"]) simp_all
    show ?thesis by (rule kept_trans [OF kept_trans [OF a b] kept_emit])
  qed
  show ?thesis
    using 1 2 by (auto simp: handleUSERSTATE_def Let_def split: option.splits obj.splits)
qed

lemma kept_handleCommand:
  assumes "channels c (Some C) = Some (Some r)" and "C \<noteq> []" and "params (decoded d) = C # rest"
  shows "channels_kept c (snd (handleCommand d c))"
  using assms
  by (simp add: handleCommand_def Let_def resolve_stored kept_emit kept_handleJOIN kept_handlePART
      kept_handleGLOBALUSERSTATE kept_handleUSERSTATE split: sum.splits)

lemma kept_dispatch:
  assumes "channels c (Some C) = Some (Some r)" and "C \<noteq> []" and "params m = C # rest"
  shows "channels_kept c (snd (dispatch m c))"
  using assms kept_handleCommand [of c C r "MessageData m" rest]
  by (auto simp: dispatch_def andThen_def sendRaw_def kept_heap_eq emit_def handle001_def Let_def
      split: option.splits)

lemma stored_channel_map:
  assumes "channels c (Some C) = Some (Some r)" and "C \<noteq> []" and "params m = C # rest"
  shows "channels (snd (dispatch m c)) (Some C) = Some (Some r)
         \<or> command m = ''PART'' \<and> channels (snd (dispatch m c)) (Some C) = None"
  using assms
  by (auto simp: dispatch_def andThen_def sendRaw_def emit_def handle001_def Let_def
      handleCommand_def resolve_stored handleJOIN_channels handlePART_channels
      handleGLOBALUSERSTATE_channels handleUSERSTATE_channels
      split: option.splits sum.splits)

subsection \<open>The sample clients\<close>

lemmas eval_defs =
  dispatch_def handleCommand_def handleJOIN_def handlePART_def handleGLOBALUSERSTATE_def
  handleUSERSTATE_def actingUser_def isSelf_def resolved_def resolveChannel_def fromServiceUser_def
  noopIRCCommands_def allocate_def store_def emit_def fresh_def heap_get_def Let_def
  line_def server_prefix_def alice_prefix_def jtv_prefix_def

lemma authenticated_client_eq:
  "authenticated_client =
     connected_client\<lparr>user := Some 0, heap := [ClientUser (Str ''bot'') Map.empty Map.empty],
       emitted := [EvGlobalUserState 0]\<rparr>"
  by (simp add: authenticated_client_def connected_client_def connect_def Client_def
      sample_options_def eval_defs)

lemma joined_client_eq:
  "joined_client =
     connected_client\<lparr>user := Some 0,
       channels := [Some ''#channel'' \<mapsto> Some 1],
       heap := [ClientUser (Str ''bot'') Map.empty Map.empty, Channel (Some ''#channel'') Map.empty,
                User ''alice'' Map.empty (Some 1)],
       emitted := [EvGlobalUserState 0, EvJoin (Some 1) (Some 2)]\<rparr>"
  by (simp add: joined_client_def authenticated_client_eq connected_client_def connect_def Client_def
      sample_options_def eval_defs)

lemma reachable_connected: "reachable connected_client"
  unfolding connected_client_def by (rule r_connect [OF r_Client])

lemma reachable_authenticated: "reachable authenticated_client"
  unfolding authenticated_client_def by (rule reachable_dispatch [OF reachable_connected])

lemma reachable_joined: "reachable joined_client"
  unfolding joined_client_def by (rule reachable_dispatch [OF reachable_authenticated])

section \<open>The claims\<close>

subsection \<open>C1: messages that arrive before the authenticated user exists\<close>

text \<open>
  Claim C1 says that a USERSTATE or a PART that arrives while no authenticated user is
  established is a no-op and raises no fault. The code reads \<^verbatim>\<open>this.user.states\<close> without the
  test that line 236 makes (\<^verbatim>\<open>this.user && ...\<close>). On a connected client that has seen no
  GLOBALUSERSTATE, the line \<^verbatim>\<open>:tmi.twitch.tv USERSTATE #channel\<close> throws a TypeError out of the
  dispatch, after a \<^verbatim>\<open>Channel\<close> was constructed; after a JOIN of \<^verbatim>\<open>#channel\<close>, the PART of
  \<^verbatim>\<open>#channel\<close> removes the channel from the map and then throws. No \<^verbatim>\<open>error\<close> event is emitted.
\<close>

theorem precondition_violations_fault:
  "dispatch (line (Some server_prefix) ''USERSTATE'' [''#channel''] Map.empty) connected_client =
     (Threw TypeError, connected_client\<lparr>heap := [Channel (Some ''#channel'') Map.empty]\<rparr>)
   \<and> channels (snd (dispatch (line (Some alice_prefix) ''JOIN'' [''#channel''] Map.empty)
                       connected_client)) (Some ''#channel'') = Some (Some 0)
   \<and> fst (dispatch (line (Some alice_prefix) ''PART'' [''#channel''] Map.empty)
             (snd (dispatch (line (Some alice_prefix) ''JOIN'' [''#channel''] Map.empty)
                     connected_client))) = Threw TypeError
   \<and> channels (snd (dispatch (line (Some alice_prefix) ''PART'' [''#channel''] Map.empty)
             (snd (dispatch (line (Some alice_prefix) ''JOIN'' [''#channel''] Map.empty)
                     connected_client)))) (Some ''#channel'') = None
   \<and> emitted (snd (dispatch (line (Some alice_prefix) ''PART'' [''#channel''] Map.empty)
             (snd (dispatch (line (Some alice_prefix) ''JOIN'' [''#channel''] Map.empty)
                     connected_client)))) = [EvJoin (Some 0) (Some 1)]
   \<and> user connected_client = None \<and> emitted connected_client = []"
  by (simp add: connected_client_def connect_def Client_def sample_options_def eval_defs)

subsection \<open>C2: JOIN stores the channel, PART removes it\<close>

lemma dispatch_JOIN:
  assumes "command m = ''JOIN''" and "\<not> fromServiceUser m"
  shows "dispatch m c = handleCommand (MessageData m) c"
  using assms by (simp add: dispatch_def noopIRCCommands_def)

lemma dispatch_PART:
  assumes "command m = ''PART''" and "\<not> fromServiceUser m"
  shows "dispatch m c = handleCommand (MessageData m) c"
  using assms by (simp add: dispatch_def noopIRCCommands_def)

lemma join_stores_channel:
  assumes wf: "well_formed c" and "command m = ''JOIN''" and "\<not> fromServiceUser m"
    and "prefix m \<noteq> None \<or> user c = None" and "params m = C # rest" and "C \<noteq> []"
  shows "\<exists>r t. channels (snd (dispatch m c)) (Some C) = Some (Some r)
           \<and> heap_get (heap (snd (dispatch m c))) r = Some (Channel (Some C) t)"
    and "user (snd (dispatch m c)) = user c"
proof -
  let ?c1 = "resolveChannel (Some C) (tags m) c"
  have wf1: "well_formed ?c1" using wf by (rule wf_resolveChannel)
  obtain b where self: "isSelf (prefix m) ?c1 = Inr b"
    using isSelf_total [OF wf1, of "prefix m"] assms(4) by auto
  obtain r where r: "resolved (Some C) c = Some r"
    using resolved_truthy [of "Some C" c] assms(6) by auto
  from resolved_is_Channel [OF wf r, of "tags m"]
  obtain t where t: "heap_get (heap ?c1) r = Some (Channel (Some C) t)" by blast
  let ?c2 = "?c1\<lparr>channels := (channels ?c1)(Some C \<mapsto> Some r)\<rparr>"
  have d: "dispatch m c = actingUser b (prefix m) (tags m) (Some r) (EvJoin (Some r)) ?c2"
    using assms(2,3,5) self r
    by (simp add: dispatch_JOIN handleCommand_def Let_def handleJOIN_def)
  have "heap_get (heap ?c2) r = Some (Channel (Some C) t)" using t by simp
  then have "heap_get (heap (snd (dispatch m c))) r = Some (Channel (Some C) t)"
    unfolding d by (rule actingUser_heap_get)
  moreover have "channels (snd (dispatch m c)) (Some C) = Some (Some r)"
    unfolding d by simp
  ultimately show "\<exists>r t. channels (snd (dispatch m c)) (Some C) = Some (Some r)
           \<and> heap_get (heap (snd (dispatch m c))) r = Some (Channel (Some C) t)"
    by blast
  show "user (snd (dispatch m c)) = user c" unfolding d by simp
qed

lemma part_removes_channel:
  assumes wf: "well_formed c" and "command m = ''PART''" and "\<not> fromServiceUser m"
    and "prefix m \<noteq> None \<or> user c = None" and "params m = C # rest"
  shows "channels (snd (dispatch m c)) (Some C) = None"
proof -
  let ?c1 = "resolveChannel (Some C) (tags m) c"
  have wf1: "well_formed ?c1" using wf by (rule wf_resolveChannel)
  obtain b where self: "isSelf (prefix m) ?c1 = Inr b"
    using isSelf_total [OF wf1, of "prefix m"] assms(4) by auto
  have "dispatch m c = handlePART (Some C) (resolved (Some C) c) (prefix m) (tags m) b ?c1"
    using assms(2,3,5) self
    by (simp add: dispatch_PART handleCommand_def Let_def)
  then show ?thesis by (simp add: handlePART_channels)
qed

text \<open>
  Claim C2, amended. In a reachable state, let a JOIN and a PART name the same channel \<open>C\<close>
  as their first parameter, \<open>C\<close> not empty, neither message sent by the service pseudo-user,
  and each carrying a sender prefix unless no authenticated user is established. After the
  dispatch of the JOIN the channel map holds, under \<open>C\<close>, one \<^verbatim>\<open>Channel\<close> object whose name is
  \<open>C\<close>; after the dispatch of the PART that follows, the map has no key \<open>C\<close>. Both hold
  whether or not the dispatch returned.
\<close>

theorem join_then_part:
  assumes "reachable c"
    and "command mj = ''JOIN''" and "params mj = C # rest" and "C \<noteq> []"
    and "\<not> fromServiceUser mj" and "prefix mj \<noteq> None \<or> user c = None"
    and "command mp = ''PART''" and "params mp = C # rest'"
    and "\<not> fromServiceUser mp" and "prefix mp \<noteq> None \<or> user c = None"
  shows "(\<exists>r t. channels (snd (dispatch mj c)) (Some C) = Some (Some r)
            \<and> heap_get (heap (snd (dispatch mj c))) r = Some (Channel (Some C) t))
         \<and> channels (snd (dispatch mp (snd (dispatch mj c)))) (Some C) = None"
proof -
  have wf: "well_formed c" using assms(1) by (rule reachable_well_formed)
  have wf1: "well_formed (snd (dispatch mj c))" using wf by (rule wf_dispatch)
  have u: "user (snd (dispatch mj c)) = user c"
    using wf assms(2,5,6,3,4) by (rule join_stores_channel(2))
  have "channels (snd (dispatch mp (snd (dispatch mj c)))) (Some C) = None"
    using wf1 assms(7,9) _ assms(8) by (rule part_removes_channel) (use u assms(10) in simp)
  moreover have "\<exists>r t. channels (snd (dispatch mj c)) (Some C) = Some (Some r)
            \<and> heap_get (heap (snd (dispatch mj c))) r = Some (Channel (Some C) t)"
    using wf assms(2,5,6,3,4) by (rule join_stores_channel(1))
  ultimately show ?thesis by blast
qed

text \<open>Claim C2 at the scenario of the specification: alice joins and parts \<^verbatim>\<open>#channel\<close>.\<close>

theorem join_then_part_witness:
  "(\<exists>r t. channels (snd (dispatch (line (Some alice_prefix) ''JOIN'' [''#channel''] Map.empty)
                           authenticated_client)) (Some ''#channel'') = Some (Some r)
      \<and> heap_get (heap (snd (dispatch (line (Some alice_prefix) ''JOIN'' [''#channel''] Map.empty)
                                 authenticated_client))) r = Some (Channel (Some ''#channel'') t))
   \<and> channels (snd (dispatch (line (Some alice_prefix) ''PART'' [''#channel''] Map.empty)
        (snd (dispatch (line (Some alice_prefix) ''JOIN'' [''#channel''] Map.empty)
                authenticated_client)))) (Some ''#channel'') = None"
  by (rule join_then_part [OF reachable_authenticated, where rest = "[]" and rest' = "[]"])
    (simp_all add: line_def alice_prefix_def fromServiceUser_def)

text \<open>
  Claim C2 as stated fails for the empty name, which line 230 resolves to no channel:
  the JOIN stores \<^verbatim>\<open>null\<close> under it. It fails for a JOIN whose sender is the service
  pseudo-user, which line 207 sets aside: the map gets no entry.
\<close>

theorem join_counterexample:
  "channels (snd (dispatch (line (Some alice_prefix) ''JOIN'' [''''] Map.empty) authenticated_client))
       (Some '''') = Some None
   \<and> channels (snd (dispatch (line (Some jtv_prefix) ''JOIN'' [''#channel''] Map.empty)
                       authenticated_client)) (Some ''#channel'') = None"
  by (simp add: authenticated_client_eq connected_client_def connect_def Client_def
      sample_options_def eval_defs)

subsection \<open>C3: the stored channel is reused\<close>

text \<open>
  Claim C3, amended. In a reachable state, let the first parameter \<open>C\<close> of a message be a
  key of the channel map that holds the \<^verbatim>\<open>Channel\<close> at address \<open>r\<close>. The dispatch constructs
  no \<^verbatim>\<open>Channel\<close> and changes none: the heap holds the same \<^verbatim>\<open>Channel\<close> objects after it as
  before, and \<open>r\<close> still holds the channel named \<open>C\<close>. The map still holds \<open>r\<close> under \<open>C\<close>,
  unless the message is a PART, which may have removed the key. The stored channel is
  reused as it is: the dispatch does not update it from the message.
\<close>

theorem stored_channel_reused:
  assumes "reachable c" and "channels c (Some C) = Some (Some r)" and "params m = C # rest"
  shows "filter is_Channel (heap (snd (dispatch m c))) = filter is_Channel (heap c)
         \<and> (\<exists>t. heap_get (heap c) r = Some (Channel (Some C) t)
                \<and> heap_get (heap (snd (dispatch m c))) r = Some (Channel (Some C) t))
         \<and> (channels (snd (dispatch m c)) (Some C) = Some (Some r)
            \<or> command m = ''PART'' \<and> channels (snd (dispatch m c)) (Some C) = None)"
proof -
  have wf: "well_formed c" using assms(1) by (rule reachable_well_formed)
  with assms(2) obtain t where ne: "C \<noteq> []" and t: "heap_get (heap c) r = Some (Channel (Some C) t)"
    unfolding well_formed_def by fastforce
  have k: "channels_kept c (snd (dispatch m c))"
    using assms(2) ne assms(3) by (rule kept_dispatch)
  then have "heap_get (heap (snd (dispatch m c))) r = Some (Channel (Some C) t)"
    using t unfolding channels_kept_def by blast
  moreover have "filter is_Channel (heap (snd (dispatch m c))) = filter is_Channel (heap c)"
    using k unfolding channels_kept_def by blast
  moreover note t stored_channel_map [OF assms(2) ne assms(3)]
  ultimately show ?thesis by blast
qed

text \<open>Claim C3 at a chat message to the channel that alice joined.\<close>

theorem stored_channel_reused_witness:
  "filter is_Channel
     (heap (snd (dispatch (line (Some alice_prefix) ''PRIVMSG'' [''#channel'', ''hello''] Map.empty)
                    joined_client))) = filter is_Channel (heap joined_client)
   \<and> (\<exists>t. heap_get (heap joined_client) 1 = Some (Channel (Some ''#channel'') t)
         \<and> heap_get
             (heap (snd (dispatch (line (Some alice_prefix) ''PRIVMSG'' [''#channel'', ''hello''] Map.empty)
                            joined_client))) 1 = Some (Channel (Some ''#channel'') t))
   \<and> (channels (snd (dispatch (line (Some alice_prefix) ''PRIVMSG'' [''#channel'', ''hello''] Map.empty)
                          joined_client)) (Some ''#channel'') = Some (Some 1)
       \<or> command (line (Some alice_prefix) ''PRIVMSG'' [''#channel'', ''hello''] Map.empty) = ''PART''
         \<and> channels (snd (dispatch (line (Some alice_prefix) ''PRIVMSG'' [''#channel'', ''hello''] Map.empty)
                              joined_client)) (Some ''#channel'') = None)"
  by (rule stored_channel_reused [OF reachable_joined, where rest = "[''hello'']"])
    (simp_all add: joined_client_eq line_def)

text \<open>
  Claim C3 as stated fails. Only a JOIN stores a channel, so a name that is not a key of
  the map gets a new \<^verbatim>\<open>Channel\<close> with every message that names it: a USERSTATE for
  \<^verbatim>\<open>#channel\<close> constructs a channel that the new \<^verbatim>\<open>UserState\<close> refers to and that the map does
  not store, and the JOIN of \<^verbatim>\<open>#channel\<close> after it constructs a second one. The state holds
  two \<^verbatim>\<open>Channel\<close> objects of one name, at the addresses 1 and 3.
\<close>

theorem second_channel_counterexample:
  "filter is_Channel
     (heap (snd (dispatch (line (Some alice_prefix) ''JOIN'' [''#channel''] Map.empty)
        (snd (dispatch (line (Some server_prefix) ''USERSTATE'' [''#channel''] Map.empty)
           authenticated_client))))) =
     [Channel (Some ''#channel'') Map.empty, Channel (Some ''#channel'') Map.empty]
   \<and> heap_get
     (heap (snd (dispatch (line (Some alice_prefix) ''JOIN'' [''#channel''] Map.empty)
        (snd (dispatch (line (Some server_prefix) ''USERSTATE'' [''#channel''] Map.empty)
           authenticated_client))))) 2 = Some (UserState Map.empty (Some 1))
   \<and> channels
     (snd (dispatch (line (Some alice_prefix) ''JOIN'' [''#channel''] Map.empty)
        (snd (dispatch (line (Some server_prefix) ''USERSTATE'' [''#channel''] Map.empty)
           authenticated_client)))) (Some ''#channel'') = Some (Some 3)"
  by (simp add: authenticated_client_eq connected_client_def connect_def Client_def
      sample_options_def eval_defs)

subsection \<open>C4: GLOBALUSERSTATE replaces the authenticated user\<close>

text \<open>
  Claim C4, amended. In a reachable state, the dispatch of a GLOBALUSERSTATE message that
  is not sent by the service pseudo-user, and that carries a sender prefix unless no
  authenticated user is established, returns. It has constructed a \<^verbatim>\<open>ClientUser\<close> from the
  name of the identity (\<^verbatim>\<open>null\<close> when the identity is absent), the tags of the message and
  an empty map of states, at an address that held no object before; the object is the
  authenticated user now, and is not the one before. One event is emitted,
  \<^verbatim>\<open>globaluserstate\<close> with the new user. The objects that existed keep their addresses and
  contents; channel map, socket and options are unchanged.
\<close>

theorem globaluserstate_replaces_user:
  assumes "reachable c" and "command m = ''GLOBALUSERSTATE''" and "\<not> fromServiceUser m"
    and "prefix m \<noteq> None \<or> user c = None"
  shows "\<exists>u c'. dispatch m c = (Returned, c')
           \<and> user c' = Some u \<and> user c \<noteq> Some u \<and> heap_get (heap c) u = None
           \<and> heap_get (heap c') u =
               Some (ClientUser (case identity (options c) of None \<Rightarrow> Null | Some i \<Rightarrow> name i)
                       (tags m) Map.empty)
           \<and> (\<forall>r x. heap_get (heap c) r = Some x \<longrightarrow> heap_get (heap c') r = Some x)
           \<and> emitted c' = emitted c @ [EvGlobalUserState u]
           \<and> channels c' = channels c \<and> socket c' = socket c \<and> options c' = options c"
proof -
  let ?k = "case params m of [] \<Rightarrow> None | x # xs \<Rightarrow> Some x"
  let ?c1 = "resolveChannel ?k (tags m) c"
  let ?u = "fresh ?c1"
  let ?x = "ClientUser (case identity (options c) of None \<Rightarrow> Null | Some i \<Rightarrow> name i) (tags m) Map.empty"
  let ?c' = "emit (EvGlobalUserState ?u) ((allocate ?x ?c1)\<lparr>user := Some ?u\<rparr>)"
  have wf: "well_formed c" using assms(1) by (rule reachable_well_formed)
  then have wf1: "well_formed ?c1" by (rule wf_resolveChannel)
  obtain b where self: "isSelf (prefix m) ?c1 = Inr b"
    using isSelf_total [OF wf1, of "prefix m"] assms(4) by auto
  have d: "dispatch m c = (Returned, ?c')"
    using assms(2,3) self
    by (simp add: dispatch_def noopIRCCommands_def handleCommand_def Let_def
        handleGLOBALUSERSTATE_def)
  have le: "length (heap c) \<le> ?u"
    using resolveChannel_fresh [of c ?k "tags m"] by (simp add: fresh_def)
  have new: "heap_get (heap c) ?u = None" using le by (rule heap_get_None)
  have old: "user c \<noteq> Some ?u"
  proof
    assume "user c = Some ?u"
    with wf obtain l t s where "heap_get (heap c) ?u = Some (ClientUser l t s)"
      unfolding well_formed_def by blast
    with new show False by simp
  qed
  have keep: "\<forall>r x. heap_get (heap c) r = Some x \<longrightarrow> heap_get (heap ?c') r = Some x"
    by (auto simp: emit_def allocate_def intro: heap_get_append_Some resolveChannel_heap_get)
  have "user ?c' = Some ?u" "heap_get (heap ?c') ?u = Some ?x"
    "emitted ?c' = emitted c @ [EvGlobalUserState ?u]"
    "channels ?c' = channels c" "socket ?c' = socket c" "options ?c' = options c"
    by (simp_all add: emit_def allocate_def fresh_def heap_get_fresh)
  with d new old keep show ?thesis by blast
qed

text \<open>Claim C4 at a second GLOBALUSERSTATE: the user at address 0 is replaced.\<close>

theorem globaluserstate_replaces_user_witness:
  "\<exists>u c'. dispatch (line (Some server_prefix) ''GLOBALUSERSTATE'' [] [''display-name'' \<mapsto> ''Bot''])
              authenticated_client = (Returned, c')
     \<and> user c' = Some u \<and> user authenticated_client \<noteq> Some u
     \<and> heap_get (heap authenticated_client) u = None
     \<and> heap_get (heap c') u = Some (ClientUser (Str ''bot'') [''display-name'' \<mapsto> ''Bot''] Map.empty)
     \<and> emitted c' = emitted authenticated_client @ [EvGlobalUserState u]
     \<and> user authenticated_client = Some 0"
proof -
  have "command (line (Some server_prefix) ''GLOBALUSERSTATE'' [] [''display-name'' \<mapsto> ''Bot''])
          = ''GLOBALUSERSTATE''"
    and "\<not> fromServiceUser (line (Some server_prefix) ''GLOBALUSERSTATE'' [] [''display-name'' \<mapsto> ''Bot''])"
    and "prefix (line (Some server_prefix) ''GLOBALUSERSTATE'' [] [''display-name'' \<mapsto> ''Bot'']) \<noteq> None
         \<or> user authenticated_client = None"
    by (simp_all add: line_def server_prefix_def fromServiceUser_def)
  from globaluserstate_replaces_user [OF reachable_authenticated this]
  show ?thesis
    by (auto simp: authenticated_client_eq connected_client_def connect_def Client_def
        sample_options_def Let_def line_def)
qed

text \<open>
  Claim C4 as stated fails for a GLOBALUSERSTATE whose sender is the service pseudo-user:
  line 207 returns before the command is looked at, no user is set and no event emitted.
\<close>

theorem globaluserstate_counterexample:
  "dispatch (line (Some jtv_prefix) ''GLOBALUSERSTATE'' [] Map.empty) connected_client =
     (Returned, connected_client)
   \<and> user connected_client = None \<and> emitted connected_client = []"
  by (simp add: connected_client_def connect_def Client_def sample_options_def eval_defs)

subsection \<open>C5: USERSTATE creates, then merges\<close>

lemma dispatch_USERSTATE:
  assumes "command m = ''USERSTATE''" and "\<not> fromServiceUser m"
  shows "dispatch m c = handleCommand (MessageData m) c"
  using assms by (simp add: dispatch_def noopIRCCommands_def)

lemma userstate_creates:
  assumes wf: "well_formed c" and "user c = Some u"
    and "heap_get (heap c) u = Some (ClientUser l t s)" and "s (Some C) = None"
    and "command m = ''USERSTATE''" and "params m = C # rest"
    and "\<not> fromServiceUser m" and "prefix m \<noteq> None"
  shows "dispatch m c =
           (Returned,
            emit (EvUserState (fresh (resolveChannel (Some C) (tags m) c)))
              (store u (ClientUser l t (s(Some C \<mapsto> fresh (resolveChannel (Some C) (tags m) c))))
                 (allocate (UserState (tags m) (resolved (Some C) c))
                    (resolveChannel (Some C) (tags m) c))))"
proof -
  let ?c1 = "resolveChannel (Some C) (tags m) c"
  have wf1: "well_formed ?c1" using wf by (rule wf_resolveChannel)
  obtain b where self: "isSelf (prefix m) ?c1 = Inr b"
    using isSelf_total [OF wf1, of "prefix m"] assms(8) by auto
  have "heap_get (heap ?c1) u = Some (ClientUser l t s)"
    using assms(3) by (rule resolveChannel_heap_get)
  then show ?thesis
    using assms(2,4,5,6,7) self
    by (simp add: dispatch_USERSTATE handleCommand_def Let_def handleUSERSTATE_def)
qed

lemma userstate_updates:
  assumes wf: "well_formed c" and "user c = Some u"
    and "heap_get (heap c) u = Some (ClientUser l t s)" and "s (Some C) = Some r"
    and "heap_get (heap c) r = Some (UserState old ch)"
    and "command m = ''USERSTATE''" and "params m = C # rest"
    and "\<not> fromServiceUser m" and "prefix m \<noteq> None"
  shows "dispatch m c =
           (Returned,
            emit (EvUserState r)
              (store r (UserState (old ++ tags m) ch) (resolveChannel (Some C) (tags m) c)))"
proof -
  let ?c1 = "resolveChannel (Some C) (tags m) c"
  have wf1: "well_formed ?c1" using wf by (rule wf_resolveChannel)
  obtain b where self: "isSelf (prefix m) ?c1 = Inr b"
    using isSelf_total [OF wf1, of "prefix m"] assms(9) by auto
  have "heap_get (heap ?c1) u = Some (ClientUser l t s)"
    using assms(3) by (rule resolveChannel_heap_get)
  moreover have "heap_get (heap ?c1) r = Some (UserState old ch)"
    using assms(5) by (rule resolveChannel_heap_get)
  ultimately show ?thesis
    using assms(2,4,6,7,8) self
    by (simp add: dispatch_USERSTATE handleCommand_def Let_def handleUSERSTATE_def)
qed

text \<open>
  Claim C5, amended. In a reachable state with an authenticated user whose map of states
  has no entry for the channel name \<open>C\<close>, let two USERSTATE messages name \<open>C\<close> as first
  parameter, neither sent by the service pseudo-user, both carrying a sender prefix. The
  dispatch of the first returns, having constructed a \<^verbatim>\<open>UserState\<close> with the tags of the
  message at an address \<open>r\<close> that held no object before, and having stored \<open>r\<close> under \<open>C\<close>. The
  dispatch of the second returns with the same \<open>r\<close> under \<open>C\<close> and the same map: the object
  at \<open>r\<close> now holds the tags of the first message overridden by those of the second, so a
  tag that the second message does not carry keeps its value. Both events carry \<open>r\<close>.
\<close>

theorem userstate_create_then_merge:
  assumes "reachable c" and "user c = Some u"
    and "heap_get (heap c) u = Some (ClientUser l t s)" and "s (Some C) = None"
    and "command m1 = ''USERSTATE''" and "params m1 = C # rest1"
    and "\<not> fromServiceUser m1" and "prefix m1 \<noteq> None"
    and "command m2 = ''USERSTATE''" and "params m2 = C # rest2"
    and "\<not> fromServiceUser m2" and "prefix m2 \<noteq> None"
  shows "\<exists>r c1 c2.
           dispatch m1 c = (Returned, c1) \<and> dispatch m2 c1 = (Returned, c2)
           \<and> heap_get (heap c) r = None
           \<and> heap_get (heap c1) r = Some (UserState (tags m1) (resolved (Some C) c))
           \<and> heap_get (heap c1) u = Some (ClientUser l t (s(Some C \<mapsto> r)))
           \<and> heap_get (heap c2) r = Some (UserState (tags m1 ++ tags m2) (resolved (Some C) c))
           \<and> heap_get (heap c2) u = Some (ClientUser l t (s(Some C \<mapsto> r)))
           \<and> user c1 = Some u \<and> user c2 = Some u
           \<and> emitted c2 = emitted c @ [EvUserState r, EvUserState r]"
proof -
  let ?c0 = "resolveChannel (Some C) (tags m1) c"
  let ?r = "fresh ?c0"
  let ?c1 = "emit (EvUserState ?r)
              (store u (ClientUser l t (s(Some C \<mapsto> ?r)))
                 (allocate (UserState (tags m1) (resolved (Some C) c)) ?c0))"
  let ?c2 = "emit (EvUserState ?r)
              (store ?r (UserState (tags m1 ++ tags m2) (resolved (Some C) c))
                 (resolveChannel (Some C) (tags m2) ?c1))"
  have wf: "well_formed c" using assms(1) by (rule reachable_well_formed)
  have d1: "dispatch m1 c = (Returned, ?c1)"
    using wf assms(2-8) by (rule userstate_creates)
  have wf1: "well_formed ?c1" using wf_dispatch [OF wf, of m1] d1 by simp
  have u_lt: "u < length (heap c)" using assms(3) by (rule heap_get_Some_less)
  have le: "length (heap c) \<le> ?r"
    using resolveChannel_fresh [of c "Some C" "tags m1"] by (simp add: fresh_def)
  have ne: "?r \<noteq> u" using u_lt le by simp
  have u_lt0: "u < length (heap ?c0)" using u_lt le by (simp add: fresh_def)
  have new: "heap_get (heap c) ?r = None" using le by (rule heap_get_None)
  have r1: "heap_get (heap ?c1) ?r = Some (UserState (tags m1) (resolved (Some C) c))"
    using ne by (simp add: emit_def store_def allocate_def heap_get_update fresh_def heap_get_fresh)
  have u1: "heap_get (heap ?c1) u = Some (ClientUser l t (s(Some C \<mapsto> ?r)))"
    using u_lt0 by (simp add: emit_def store_def allocate_def heap_get_update)
  have usr1: "user ?c1 = Some u"
    using assms(2) by (simp add: emit_def store_def allocate_def)
  have d2: "dispatch m2 ?c1 = (Returned, ?c2)"
    by (rule userstate_updates [OF wf1 usr1 u1 _ r1 assms(9-12)]) simp
  let ?c3 = "resolveChannel (Some C) (tags m2) ?c1"
  have r3: "heap_get (heap ?c3) ?r = Some (UserState (tags m1) (resolved (Some C) c))"
    using r1 by (rule resolveChannel_heap_get)
  have u3: "heap_get (heap ?c3) u = Some (ClientUser l t (s(Some C \<mapsto> ?r)))"
    using u1 by (rule resolveChannel_heap_get)
  have r2: "heap_get (heap ?c2) ?r = Some (UserState (tags m1 ++ tags m2) (resolved (Some C) c))"
    using heap_get_Some_less [OF r3] by (simp add: emit_def store_def heap_get_update)
  have u2: "heap_get (heap ?c2) u = Some (ClientUser l t (s(Some C \<mapsto> ?r)))"
    using u3 ne by (simp add: emit_def store_def heap_get_update)
  have usr2: "user ?c2 = Some u"
    using assms(2) by (simp add: emit_def store_def allocate_def)
  have ev: "emitted ?c2 = emitted c @ [EvUserState ?r, EvUserState ?r]"
    by (simp add: emit_def store_def allocate_def)
  from d1 d2 new r1 u1 r2 u2 usr1 usr2 ev show ?thesis by blast
qed

text \<open>
  Claim C5 at the scenario of the specification, with one more tag: \<^verbatim>\<open>mod\<close> ends as 1 and
  \<^verbatim>\<open>color\<close> stays.
\<close>

theorem userstate_create_then_merge_witness:
  "\<exists>r c1 c2.
     dispatch (line (Some server_prefix) ''USERSTATE'' [''#channel''] [''mod'' \<mapsto> ''0'', ''color'' \<mapsto> ''red''])
       authenticated_client = (Returned, c1)
     \<and> dispatch (line (Some server_prefix) ''USERSTATE'' [''#channel''] [''mod'' \<mapsto> ''1'']) c1
         = (Returned, c2)
     \<and> heap_get (heap authenticated_client) r = None
     \<and> heap_get (heap c1) r =
         Some (UserState [''mod'' \<mapsto> ''0'', ''color'' \<mapsto> ''red''] (Some 1))
     \<and> heap_get (heap c1) 0 = Some (ClientUser (Str ''bot'') Map.empty [Some ''#channel'' \<mapsto> r])
     \<and> heap_get (heap c2) r =
         Some (UserState ([''mod'' \<mapsto> ''0'', ''color'' \<mapsto> ''red''] ++ [''mod'' \<mapsto> ''1'']) (Some 1))
     \<and> ([''mod'' \<mapsto> ''0'', ''color'' \<mapsto> ''red''] ++ [''mod'' \<mapsto> ''1'']) ''mod'' = Some ''1''
     \<and> ([''mod'' \<mapsto> ''0'', ''color'' \<mapsto> ''red''] ++ [''mod'' \<mapsto> ''1'']) ''color'' = Some ''red''
     \<and> dom ([''mod'' \<mapsto> ''0'', ''color'' \<mapsto> ''red''] ++ [''mod'' \<mapsto> ''1'']) = {''mod'', ''color''}
     \<and> heap_get (heap c2) 0 = Some (ClientUser (Str ''bot'') Map.empty [Some ''#channel'' \<mapsto> r])
     \<and> user c1 = Some 0 \<and> user c2 = Some 0
     \<and> emitted c2 = emitted authenticated_client @ [EvUserState r, EvUserState r]"
proof -
  let ?m1 = "line (Some server_prefix) ''USERSTATE'' [''#channel''] [''mod'' \<mapsto> ''0'', ''color'' \<mapsto> ''red'']"
  let ?m2 = "line (Some server_prefix) ''USERSTATE'' [''#channel''] [''mod'' \<mapsto> ''1'']"
  have u: "user authenticated_client = Some 0"
    and h: "heap_get (heap authenticated_client) 0 = Some (ClientUser (Str ''bot'') Map.empty Map.empty)"
    by (simp_all add: authenticated_client_eq heap_get_def)
  have s: "(Map.empty :: string option \<rightharpoonup> ref) (Some ''#channel'') = None" by simp
  have m1: "command ?m1 = ''USERSTATE''" "params ?m1 = ''#channel'' # []"
    "\<not> fromServiceUser ?m1" "prefix ?m1 \<noteq> None"
    and m2: "command ?m2 = ''USERSTATE''" "params ?m2 = ''#channel'' # []"
    "\<not> fromServiceUser ?m2" "prefix ?m2 \<noteq> None"
    by (simp_all add: line_def server_prefix_def fromServiceUser_def)
  have c: "resolved (Some ''#channel'') authenticated_client = Some 1"
    by (simp add: resolved_def authenticated_client_eq connected_client_def connect_def Client_def
        Let_def fresh_def)
  from userstate_create_then_merge [OF reachable_authenticated u h s m1 m2]
  show ?thesis by (auto simp: line_def c)
qed

text \<open>
  Claim C5 as stated fails for a USERSTATE whose sender is the service pseudo-user: line
  207 returns before the command is looked at, and no \<^verbatim>\<open>UserState\<close> is constructed.
\<close>

theorem userstate_counterexample:
  "dispatch (line (Some jtv_prefix) ''USERSTATE'' [''#channel''] Map.empty) authenticated_client =
     (Returned, authenticated_client)
   \<and> heap authenticated_client = [ClientUser (Str ''bot'') Map.empty Map.empty]"
  by (simp add: authenticated_client_eq connected_client_def connect_def Client_def
      sample_options_def eval_defs)

subsection \<open>C6: the reply to PING\<close>

text \<open>
  Claim C6. For every inbound line that decodes to a message whose command token is PING,
  on a client whose socket exists, \<^verbatim>\<open>_handleMessage\<close> returns after exactly one write, the line
  \<^verbatim>\<open>PONG :tmi.twitch.tv\<close> followed by CRLF, and exactly one event, \<^verbatim>\<open>ping\<close>, which carries no
  payload. Nothing else of the client changes: the channel map, the authenticated user
  and the heap, which holds every per-channel user state, are the ones before.
\<close>

theorem ping_reply:
  assumes "parse message = Some m" and "command m = ''PING''" and "socket c = Some s"
  shows "handleMessage parse message c =
           (Returned,
            c\<lparr>socket := Some (s\<lparr>written := written s @ [''PONG :tmi.twitch.tv'' @ CRLF]\<rparr>),
              emitted := emitted c @ [EvPing]\<rparr>)"
  using assms by (simp add: handleMessage_def dispatch_def andThen_def sendRaw_def emit_def)

text \<open>
  Claim C6 at the scenario of the specification: the line \<^verbatim>\<open>PING :tmi.twitch.tv\<close> on a
  connected client.
\<close>

theorem ping_reply_witness:
  "handleMessage (\<lambda>l. Some (line None ''PING'' [''tmi.twitch.tv''] Map.empty)) ''PING :tmi.twitch.tv''
       connected_client =
     (Returned,
      connected_client
        \<lparr>socket := Some ((the (socket connected_client))\<lparr>written := [''PONG :tmi.twitch.tv'' @ CRLF]\<rparr>),
         emitted := [EvPing]\<rparr>)"
  using ping_reply [of "\<lambda>l. Some (line None ''PING'' [''tmi.twitch.tv''] Map.empty)" "''PING :tmi.twitch.tv''"
      "line None ''PING'' [''tmi.twitch.tv''] Map.empty" connected_client "the (socket connected_client)"]
  by (simp add: line_def connected_client_def connect_def Client_def Let_def)

subsection \<open>C7: the handshake\<close>




subsection \<open>C8: commands without a branch of their own\<close>

text \<open>The default branch, where line 236 does not fault: the message is passed on.\<close>

lemma unhandled_command_emitted:
  assumes "well_formed c"
    and "command m \<notin> set [''PING'', ''001'', ''PRIVMSG'', ''JOIN'', ''PART'', ''GLOBALUSERSTATE'',
                        ''USERSTATE'', ''ROOMSTATE'']"
    and "command m \<notin> set noopIRCCommands" and "\<not> fromServiceUser m"
    and "prefix m \<noteq> None \<or> user c = None"
  shows "dispatch m c =
           (Returned,
            emit (EvUnhandledCommand (MessageData m))
              (resolveChannel (case params m of [] \<Rightarrow> None | x # xs \<Rightarrow> Some x) (tags m) c))"
proof -
  let ?c1 = "resolveChannel (case params m of [] \<Rightarrow> None | x # xs \<Rightarrow> Some x) (tags m) c"
  have wf1: "well_formed ?c1" using assms(1) by (rule wf_resolveChannel)
  obtain b where self: "isSelf (prefix m) ?c1 = Inr b"
    using isSelf_total [OF wf1, of "prefix m"] assms(5) by auto
  show ?thesis
    using assms(2,3,4) self by (simp add: dispatch_def handleCommand_def Let_def)
qed

text \<open>
  Claim C8 says that every decoded line outside the listed classes emits
  \<^verbatim>\<open>unhandled-command\<close>. Line 236 reads \<^verbatim>\<open>prefix.name\<close> once an authenticated user exists, without
  the test for an absent prefix that line 207 makes. On the authenticated client the line
  \<^verbatim>\<open>RECONNECT\<close>, which has no prefix, throws a TypeError out of the dispatch: the state is
  unchanged and no event is emitted.
\<close>

theorem unhandled_command_without_prefix_faults:
  "dispatch (line None ''RECONNECT'' [] Map.empty) authenticated_client =
     (Threw TypeError, authenticated_client)
   \<and> emitted authenticated_client = [EvGlobalUserState 0]"
  by (simp add: authenticated_client_eq connected_client_def connect_def Client_def
      sample_options_def eval_defs)

subsection \<open>C9: a command rides in a chat message\<close>

text \<open>
  Claim C9. For every channel, command word and parameter list, \<^verbatim>\<open>sendCommand\<close> does what
  \<^verbatim>\<open>say\<close> does with the text made of the slash, the command word, a space and the
  parameters joined by spaces: both write the line \<^verbatim>\<open>PRIVMSG\<close>, the channel, and after the
  colon that text. The codec is the modelled one; of its rule \<open>marks\<close> the theorem assumes
  that a last parameter containing a space is written as trailing.
\<close>

theorem sendCommand_is_say:
  assumes "\<forall>t. CHR '' '' \<in> set t \<longrightarrow> marks t"
  shows "sendCommand marks channel w (ParamArray ps) c =
           say marks channel (''/'' @ w @ '' '' @ array_join '' '' ps) c
         \<and> sendCommand marks channel w (ParamArray ps) c =
           sendRaw (''PRIVMSG '' @ channel @ '' :/'' @ w @ '' '' @ array_join '' '' ps) c"
proof -
  have "marks (''/'' @ w @ '' '' @ array_join '' '' ps)"
    using assms by simp
  then show ?thesis
    by (simp add: sendCommand_def say_def tekko_format_def spaced_def Let_def)
qed

text \<open>
  Claim C9 at \<^verbatim>\<open>sendCommand('#channel', 'ban', ['alice', 'spam'])\<close>, with a codec that marks
  only where needed.
\<close>

theorem sendCommand_is_say_witness:
  "sendCommand (\<lambda>t. CHR '' '' \<in> set t) ''#channel'' ''ban'' (ParamArray [''alice'', ''spam''])
       connected_client =
     say (\<lambda>t. CHR '' '' \<in> set t) ''#channel'' ''/ban alice spam'' connected_client
   \<and> map_option written
       (socket (snd (sendCommand (\<lambda>t. CHR '' '' \<in> set t) ''#channel'' ''ban''
                       (ParamArray [''alice'', ''spam'']) connected_client))) =
       Some [''PRIVMSG #channel :/ban alice spam'' @ CRLF]"
proof -
  have "\<forall>t. CHR '' '' \<in> set t \<longrightarrow> (\<lambda>t. CHR '' '' \<in> set t) t"
    by simp
  note th = sendCommand_is_say [OF this, of "''#channel''" "''ban''" "[''alice'', ''spam'']" connected_client]
  have a: "sendCommand (\<lambda>t. CHR '' '' \<in> set t) ''#channel'' ''ban'' (ParamArray [''alice'', ''spam''])
       connected_client =
     say (\<lambda>t. CHR '' '' \<in> set t) ''#channel'' ''/ban alice spam'' connected_client"
    using th [THEN conjunct1] by simp
  have b: "sendCommand (\<lambda>t. CHR '' '' \<in> set t) ''#channel'' ''ban'' (ParamArray [''alice'', ''spam''])
       connected_client = sendRaw ''PRIVMSG #channel :/ban alice spam'' connected_client"
    using th [THEN conjunct2] by simp
  have "map_option written (socket (snd (sendRaw ''PRIVMSG #channel :/ban alice spam'' connected_client)))
      = Some [''PRIVMSG #channel :/ban alice spam'' @ CRLF]"
    by (simp add: sendRaw_def connected_client_def connect_def Let_def)
  with a b show ?thesis by (simp only:)
qed

subsection \<open>C10: the promise of connect\<close>

text \<open>
  Claim C10, amended. With \<^verbatim>\<open>tls.connect\<close> returning, as the model takes it to, \<^verbatim>\<open>connect\<close>
  returns in every state a promise that is already resolved, and leaves a new socket
  with the encoding set and the four handlers registered, in the order of the source. The
  promise says nothing of what happens to the connection later, and no handler returns
  or changes a promise. The handlers report it as follows. The close handler emits
  \<^verbatim>\<open>disconnected\<close> with \<^verbatim>\<open>willReconnect\<close> false and the flag it was given. The error handler
  emits \<^verbatim>\<open>error\<close> when the client has a listener for \<^verbatim>\<open>error\<close>; when it has none, the handler
  throws the error and emits nothing. The connect handler, run on the new socket of a
  client with a configured identity, returns and emits \<^verbatim>\<open>connected\<close>.
\<close>

theorem connect_resolved:
  "connect c =
     (PromiseResolved,
      c\<lparr>socket := Some
          \<lparr>sock_host = host (connection c), sock_port = port (connection c),
           encoding = Some ''utf8'',
           listeners = [(''secureConnect'', OnConnect), (''close'', OnClose),
                        (''error'', OnError), (''data'', OnData)],
           written = []\<rparr>\<rparr>)
   \<and> onClose hadError c = (Returned, emit (EvDisconnected False hadError) c)
   \<and> onError err c =
       (if ''error'' \<in> set (client_listeners c) then (Returned, emit (EvError err) c)
        else (Threw err, c))
   \<and> (identity (options c) \<noteq> None \<longrightarrow>
        fst (onConnect (snd (connect c))) = Returned
        \<and> emitted (snd (onConnect (snd (connect c)))) = emitted c @ [EvConnected])"
  by (auto simp: connect_def Let_def onError_def emitError_def onClose_def onConnect_def
      sendRawArray_def sendRaw_def andThen_def emit_def)

text \<open>
  Claim C10 at the sample client that listens for \<^verbatim>\<open>error\<close>, with a connection reset as the
  later failure.
\<close>

theorem connect_resolved_witness:
  "fst (connect listening_client) = PromiseResolved
   \<and> map_option listeners (socket (snd (connect listening_client))) =
       Some [(''secureConnect'', OnConnect), (''close'', OnClose),
             (''error'', OnError), (''data'', OnData)]
   \<and> onClose True listening_client = (Returned, emit (EvDisconnected False True) listening_client)
   \<and> onError (TransportError ''ECONNRESET'') listening_client =
       (Returned, emit (EvError (TransportError ''ECONNRESET'')) listening_client)
   \<and> fst (onConnect (snd (connect listening_client))) = Returned
   \<and> emitted (snd (onConnect (snd (connect listening_client)))) = [EvConnected]"
  using connect_resolved [of listening_client True "TransportError ''ECONNRESET''"]
  by (simp add: listening_client_def on_def sample_options_def Client_def Let_def connect_def
      emit_def)

text \<open>
  Claim C10 as stated fails: the failure of a connection reaches the caller as an event
  only if the caller listens for it. On the connected sample client, which has no
  listener for \<^verbatim>\<open>error\<close>, the promise of \<^verbatim>\<open>connect\<close> was resolved, and the connection reset that
  follows throws out of the error handler: no \<^verbatim>\<open>error\<close> event is emitted.
\<close>

theorem unheard_error_counterexample:
  "fst (connect (Client sample_options)) = PromiseResolved
   \<and> client_listeners connected_client = []
   \<and> onError (TransportError ''ECONNRESET'') connected_client =
       (Threw (TransportError ''ECONNRESET''), connected_client)
   \<and> emitted connected_client = []"
  by (simp add: connected_client_def connect_def Client_def Let_def sample_options_def
      onError_def emitError_def)

end
